theory Spec2Isabelle
  imports Main "HOL-Library.AList"
begin

section \<open>JavaScript values\<close>

text \<open>
  The request bodies, the stored claim logs and the response bodies are JSON values as
  \<^verbatim>\<open>express.json()\<close> and \<^verbatim>\<open>JSON.parse\<close> deliver them. An object is
  an association list in insertion order. JSON numbers are kept as integers: the code
  only ever tests a number for truthiness, which is being non-zero.
  \<^verbatim>\<open>JUndefined\<close> is what reading an absent property yields; a parsed JSON
  document never holds it.
\<close>

datatype jsval =
    JUndefined
  | JNull
  | JBool bool
  | JNum int
  | JStr string
  | JArr "jsval list"
  | JObj "(string \<times> jsval) list"

text \<open>What \<^verbatim>\<open>!v\<close>, \<^verbatim>\<open>v || w\<close> and \<^verbatim>\<open>if (v)\<close> test.\<close>

fun truthy :: "jsval \<Rightarrow> bool" where
  "truthy JUndefined = False"
| "truthy JNull = False"
| "truthy (JBool b) = b"
| "truthy (JNum n) = (n \<noteq> 0)"
| "truthy (JStr s) = (s \<noteq> [])"
| "truthy (JArr xs) = True"
| "truthy (JObj fs) = True"

text \<open>
  A thrown JavaScript error, with the \<^verbatim>\<open>message\<close> the handlers report. The
  engine's wording of a \<^verbatim>\<open>TypeError\<close> is not modelled.
\<close>

datatype js_error = JsError string | TypeError string

fun message :: "js_error \<Rightarrow> string" where
  "message (JsError m) = m"
| "message (TypeError m) = m"

text \<open>
  Reading a property \<^verbatim>\<open>v.k\<close>. On \<^verbatim>\<open>undefined\<close> and \<^verbatim>\<open>null\<close> the read
  throws a \<^verbatim>\<open>TypeError\<close> (\<open>nullish\<close>); on an object it yields the value or
  \<^verbatim>\<open>undefined\<close>; on an array or a primitive none of the names the code reads is
  defined.
\<close>

fun nullish :: "jsval \<Rightarrow> bool" where
  "nullish JUndefined = True"
| "nullish JNull = True"
| "nullish v = False"

fun get_prop :: "jsval \<Rightarrow> string \<Rightarrow> jsval" where
  "get_prop (JObj fs) k = (case map_of fs k of None \<Rightarrow> JUndefined | Some v \<Rightarrow> v)"
| "get_prop v k = JUndefined"

text \<open>
  The assignment \<^verbatim>\<open>v.k = w\<close>: an existing key keeps its place, a new key goes last.
  The code assigns only to a body that passed validation, which is an object.
\<close>

fun set_prop :: "jsval \<Rightarrow> string \<Rightarrow> jsval \<Rightarrow> jsval" where
  "set_prop (JObj fs) k w = JObj (AList.update k w fs)"
| "set_prop v k w = v"

text \<open>\<^verbatim>\<open>v || w\<close> on values.\<close>

definition js_or :: "jsval \<Rightarrow> jsval \<Rightarrow> jsval" where
  "js_or v w = (if truthy v then v else w)"

text \<open>
  \<^verbatim>\<open>Number.prototype.toString()\<close> on the non-negative integer that
  \<^verbatim>\<open>Date.now()\<close> returns: its decimal digits.
\<close>

definition digit_char :: "nat \<Rightarrow> char" where
  "digit_char d = ''0123456789'' ! d"

fun nat_toString :: "nat \<Rightarrow> string" where
  "nat_toString n =
     (if n < 10 then [digit_char n] else nat_toString (n div 10) @ [digit_char (n mod 10)])"

declare nat_toString.simps [simp del]

section \<open>The server's state and its collaborators\<close>

text \<open>
  Handles of the ledger client library. A gateway is the session object created for an
  organization, a network is a channel opened on it, a contract a named contract on that
  channel.
\<close>

datatype gateway = Gateway string
datatype network = Network gateway string
datatype contract = Contract network string

record connection =
  gateway :: "gateway option"
  contract :: "contract option"

text \<open>The calls the server makes on live handles, in the order made.\<close>

datatype ledger_call =
    SubmitTransaction contract string "jsval list"
  | EvaluateTransaction contract string "jsval list"
  | Disconnect gateway

text \<open>
  Lines written to the console. Of each message the text and the organization name are
  kept; the decorative prefix and the other interpolated values are left out.
\<close>

datatype console_line = ConsoleLog string | ConsoleError string

text \<open>
  The module-level state of \<^verbatim>\<open>blockchain-http-server.js\<close>: the connection map
  \<^verbatim>\<open>orgConnections\<close> (an object: its entries in insertion order, read with
  \<open>map_of\<close>, assigned with \<open>AList.update\<close>) and the in-memory list
  \<^verbatim>\<open>claimsLogs\<close>, together with the trace of ledger calls and the console.
\<close>

record server_state =
  orgConnections :: "(string \<times> connection) list"
  claimsLogs :: "jsval list"
  ledger_calls :: "ledger_call list"
  console :: "console_line list"

type_synonym path = "string list"

record identity =
  certificate :: string
  privateKey :: string
  mspId :: string
  type :: string

record connection_options =
  wallet :: path
  identity_label :: string
  discovery_enabled :: bool
  discovery_asLocalhost :: bool
  commitTimeout :: nat
  queryTimeout :: nat

text \<open>
  The library and network operations the two programs call, none of which is code of
  this repository: each is a parameter, and returns the error it throws (\<open>Inl\<close>, or
  \<open>Some\<close> for an operation with no result) or its result. A path is the list of
  its segments.
\<close>

record sdk =
  fs_readFileSync :: "path \<Rightarrow> js_error + string"
  fs_readdirSync :: "path \<Rightarrow> js_error + string list"
  fs_rmSync :: "path \<Rightarrow> js_error option"
  JSON_parse :: "string \<Rightarrow> js_error + jsval"
  Wallets_newFileSystemWallet :: "path \<Rightarrow> js_error option"
  wallet_get :: "path \<Rightarrow> string \<Rightarrow> js_error + identity option"
  wallet_put :: "path \<Rightarrow> string \<Rightarrow> identity \<Rightarrow> js_error option"
  gateway_connect :: "gateway \<Rightarrow> jsval \<Rightarrow> connection_options \<Rightarrow> js_error option"
  gateway_getNetwork :: "gateway \<Rightarrow> string \<Rightarrow> js_error + network"
  network_getContract :: "network \<Rightarrow> string \<Rightarrow> js_error + contract"
  contract_submitTransaction :: "contract \<Rightarrow> string \<Rightarrow> jsval list \<Rightarrow> js_error + string"
  contract_evaluateTransaction :: "contract \<Rightarrow> string \<Rightarrow> jsval list \<Rightarrow> js_error + string"
  gateway_disconnect :: "gateway \<Rightarrow> js_error option"

text \<open>
  The wall-clock readings one POST request makes: \<^verbatim>\<open>Date.now()\<close> for the id, and
  \<^verbatim>\<open>new Date().toISOString()\<close> where the timestamp and where \<^verbatim>\<open>createdAt\<close>
  are defaulted.
\<close>

record clock =
  Date_now :: nat
  iso_timestamp :: string
  iso_createdAt :: string

record response =
  status :: nat
  body :: jsval

definition ORG1_NAME :: string where "ORG1_NAME = ''org1.example.com''"
definition ORG2_NAME :: string where "ORG2_NAME = ''org2.example.com''"
definition CHANNEL_NAME :: string where "CHANNEL_NAME = ''mychannel''"
definition CONTRACT_NAME :: string where "CONTRACT_NAME = ''logcc''"

definition console_log :: "string \<Rightarrow> server_state \<Rightarrow> server_state" where
  "console_log m st = st\<lparr>console := console st @ [ConsoleLog m]\<rparr>"

definition console_error :: "string \<Rightarrow> server_state \<Rightarrow> server_state" where
  "console_error m st = st\<lparr>console := console st @ [ConsoleError m]\<rparr>"

text \<open>\<^verbatim>\<open>res.json(v)\<close> answers 200; \<^verbatim>\<open>res.status(n).json(v)\<close> answers \<open>n\<close>.\<close>

definition res_json :: "jsval \<Rightarrow> response" where
  "res_json v = \<lparr>status = 200, body = v\<rparr>"

definition res_status_json :: "nat \<Rightarrow> jsval \<Rightarrow> response" where
  "res_status_json n v = \<lparr>status = n, body = v\<rparr>"

text \<open>
  The test \<^verbatim>\<open>orgConnections[orgName] && orgConnections[orgName].contract\<close> of the
  routes and of \<^verbatim>\<open>/health\<close>.
\<close>

definition has_contract :: "server_state \<Rightarrow> string \<Rightarrow> bool" where
  "has_contract st orgName =
     (case map_of (orgConnections st) orgName of
        None \<Rightarrow> False
      | Some conn \<Rightarrow> contract conn \<noteq> None)"

section \<open>Submitting and evaluating transactions\<close>

text \<open>
  \<^verbatim>\<open>submitTransaction(orgName, functionName, ...args)\<close>: throws when the organization
  has no contract, otherwise makes the call on the contract and returns or rethrows what
  the network answers.
\<close>

definition submitTransaction ::
  "sdk \<Rightarrow> server_state \<Rightarrow> string \<Rightarrow> string \<Rightarrow> jsval list \<Rightarrow> server_state \<times> (js_error + string)" where
  "submitTransaction env st orgName functionName args =
     (case (case map_of (orgConnections st) orgName of None \<Rightarrow> None | Some conn \<Rightarrow> contract conn) of
        None \<Rightarrow> (st, Inl (JsError (''Contract for '' @ orgName @ '' not available'')))
      | Some c \<Rightarrow>
          (st\<lparr>ledger_calls := ledger_calls st @ [SubmitTransaction c functionName args]\<rparr>,
           contract_submitTransaction env c functionName args))"

definition evaluateTransaction ::
  "sdk \<Rightarrow> server_state \<Rightarrow> string \<Rightarrow> string \<Rightarrow> jsval list \<Rightarrow> server_state \<times> (js_error + string)" where
  "evaluateTransaction env st orgName functionName args =
     (case (case map_of (orgConnections st) orgName of None \<Rightarrow> None | Some conn \<Rightarrow> contract conn) of
        None \<Rightarrow> (st, Inl (JsError (''Contract for '' @ orgName @ '' not available'')))
      | Some c \<Rightarrow>
          (st\<lparr>ledger_calls := ledger_calls st @ [EvaluateTransaction c functionName args]\<rparr>,
           contract_evaluateTransaction env c functionName args))"

section \<open>Routes\<close>

text \<open>
  A route handler runs its body inside \<^verbatim>\<open>try\<close>; the body either answers or throws,
  and what it did to the state before throwing stays done. The \<^verbatim>\<open>catch\<close> logs the
  error and answers 500.
\<close>

definition catch_500 ::
  "string \<Rightarrow> string \<Rightarrow> server_state \<times> (js_error + response) \<Rightarrow> server_state \<times> response" where
  "catch_500 logged failure r =
     (case r of
        (st, Inr res) \<Rightarrow> (st, res)
      | (st, Inl e) \<Rightarrow>
          (console_error logged st,
           res_status_json 500
             (JObj [(''error'', JStr failure), (''details'', JStr (message e))])))"

subsection \<open>GET /api/claims-logs/:org\<close>

definition get_claims_logs_body ::
  "sdk \<Rightarrow> server_state \<Rightarrow> string \<Rightarrow> server_state \<times> (js_error + response)" where
  "get_claims_logs_body env st orgName =
     (let st1 = console_log (''Fetching claims logs for '' @ orgName @ '' from blockchain...'') st in
      if has_contract st1 orgName then
        (let st2 = console_log (''Querying blockchain for all claim logs using '' @ orgName @ '' credentials...'') st1 in
         case evaluateTransaction env st2 orgName ''QueryAllClaimLogs'' [] of
           (st3, Inl e) \<Rightarrow> (st3, Inl e)
         | (st3, Inr result) \<Rightarrow>
             (case JSON_parse env result of
                Inl e \<Rightarrow> (st3, Inl e)
              | Inr logs \<Rightarrow>
                  if nullish logs then (st3, Inl (TypeError ''Cannot read properties of null''))
                  else (console_log (''Retrieved claim logs from blockchain via '' @ orgName) st3,
                        Inr (res_json logs))))
      else
        (console_log ''Fetching claims logs from local storage...'' st1,
         Inr (res_json (JArr (claimsLogs st1)))))"

definition get_claims_logs :: "sdk \<Rightarrow> server_state \<Rightarrow> string \<Rightarrow> server_state \<times> response" where
  "get_claims_logs env st orgName =
     catch_500 ''Error fetching claims logs:'' ''Failed to fetch claims logs''
       (get_claims_logs_body env st orgName)"

subsection \<open>POST /api/claims-logs/:org\<close>

definition required :: "string list" where
  "required = [''claimId'', ''farmerName'', ''cropType'', ''status'']"

text \<open>
  The condition \<^verbatim>\<open>!claimLog.claimId || !claimLog.farmerName || !claimLog.cropType ||
  !claimLog.status\<close>.
\<close>

definition missing_required :: "jsval \<Rightarrow> bool" where
  "missing_required claimLog =
     (\<not> truthy (get_prop claimLog ''claimId'') \<or> \<not> truthy (get_prop claimLog ''farmerName'') \<or>
      \<not> truthy (get_prop claimLog ''cropType'') \<or> \<not> truthy (get_prop claimLog ''status''))"

definition bad_request :: response where
  "bad_request =
     res_status_json 400
       (JObj [(''error'', JStr ''Missing required fields''),
              (''required'', JArr (map JStr required))])"

text \<open>The five arguments of \<^verbatim>\<open>AddClaimLog\<close>, as the handler passes them.\<close>

definition add_claim_log_args :: "clock \<Rightarrow> jsval \<Rightarrow> jsval list" where
  "add_claim_log_args clk claimLog =
     [get_prop claimLog ''claimId'',
      get_prop claimLog ''farmerName'',
      get_prop claimLog ''cropType'',
      js_or (get_prop claimLog ''timestamp'') (JStr (iso_timestamp clk)),
      get_prop claimLog ''status'']"

text \<open>The three assignments of the fallback branch, in order.\<close>

definition stamp :: "clock \<Rightarrow> jsval \<Rightarrow> jsval" where
  "stamp clk claimLog =
     (let c1 = set_prop claimLog ''id'' (JStr (nat_toString (Date_now clk)));
          c2 = set_prop c1 ''timestamp'' (js_or (get_prop c1 ''timestamp'') (JStr (iso_timestamp clk)));
          c3 = set_prop c2 ''createdAt'' (js_or (get_prop c2 ''createdAt'') (JStr (iso_createdAt clk)))
      in c3)"

definition post_claims_logs_body ::
  "sdk \<Rightarrow> clock \<Rightarrow> server_state \<Rightarrow> string \<Rightarrow> jsval \<Rightarrow> server_state \<times> (js_error + response)" where
  "post_claims_logs_body env clk st orgName claimLog =
     (let st1 = console_log (''Received claim log for '' @ orgName @ '':'') st in
      if nullish claimLog then (st1, Inl (TypeError ''Cannot read properties of undefined''))
      else if missing_required claimLog then (st1, Inr bad_request)
      else if has_contract st1 orgName then
        (let st2 = console_log (''Adding claim log to blockchain using '' @ orgName @ '' credentials...'') st1 in
         case submitTransaction env st2 orgName ''AddClaimLog'' (add_claim_log_args clk claimLog) of
           (st3, Inl e) \<Rightarrow> (st3, Inl e)
         | (st3, Inr result) \<Rightarrow>
             (case (if result \<noteq> [] then JSON_parse env result else Inr (JObj [])) of
                Inl e \<Rightarrow> (st3, Inl e)
              | Inr response \<Rightarrow>
                  (console_log (''Successfully added claim log to blockchain via '' @ orgName) st3,
                   Inr (res_json response))))
      else
        (let st2 = console_log ''Adding claim log to local storage...'' st1;
             stored = stamp clk claimLog;
             st3 = st2\<lparr>claimsLogs := claimsLogs st2 @ [stored]\<rparr>
         in (console_log ''Successfully added claim log to local storage'' st3, Inr (res_json stored))))"

definition post_claims_logs ::
  "sdk \<Rightarrow> clock \<Rightarrow> server_state \<Rightarrow> string \<Rightarrow> jsval \<Rightarrow> server_state \<times> response" where
  "post_claims_logs env clk st orgName claimLog =
     catch_500 ''Error adding claim log:'' ''Failed to add claim log''
       (post_claims_logs_body env clk st orgName claimLog)"

subsection \<open>GET /health\<close>

text \<open>
  The handler reads the connection map and the clock (\<open>now_iso\<close> is what
  \<^verbatim>\<open>new Date().toISOString()\<close> yields) and answers.
\<close>

definition health :: "server_state \<Rightarrow> string \<Rightarrow> server_state \<times> response" where
  "health st now_iso =
     (st,
      res_json
        (JObj [(''status'', JStr ''OK''),
               (''fabricConnectedOrg1'', JBool (has_contract st ORG1_NAME)),
               (''fabricConnectedOrg2'', JBool (has_contract st ORG2_NAME)),
               (''timestamp'', JStr now_iso)]))"

section \<open>Connecting at start-up\<close>

text \<open>\<^verbatim>\<open>orgName.split('.')[0]\<close>: the name up to its first dot.\<close>

definition split_dot_first :: "string \<Rightarrow> string" where
  "split_dot_first orgName = takeWhile (\<lambda>c. c \<noteq> CHR ''.'') orgName"

text \<open>
  The paths the code builds from \<^verbatim>\<open>__dirname\<close>. A path only keys the file-system
  parameter, so \<^verbatim>\<open>..\<close> stays a segment of its own.
\<close>

definition ccpPath :: "path \<Rightarrow> string \<Rightarrow> path" where
  "ccpPath dirname orgName =
     dirname @ [''..'', ''fabric-samples'', ''test-network'', ''organizations'',
                ''peerOrganizations'', orgName,
                ''connection-'' @ split_dot_first orgName @ ''.json'']"

definition walletPath :: "path \<Rightarrow> string \<Rightarrow> path" where
  "walletPath dirname orgName = dirname @ [''wallet'', orgName]"

definition connectionOptions :: "path \<Rightarrow> connection_options" where
  "connectionOptions w =
     \<lparr>wallet = w, identity_label = ''admin'', discovery_enabled = False,
      discovery_asLocalhost = True, commitTimeout = 100, queryTimeout = 60\<rparr>"

text \<open>
  The \<^verbatim>\<open>try\<close> block of \<^verbatim>\<open>initializeFabricForOrg\<close>: the first step that throws
  ends it with that error. \<open>Gateway orgName\<close> stands for the object that
  \<^verbatim>\<open>new Gateway()\<close> creates in the call for \<open>orgName\<close>.
\<close>

definition try_connect :: "sdk \<Rightarrow> path \<Rightarrow> string \<Rightarrow> js_error + connection" where
  "try_connect env dirname orgName =
     (let gw = Gateway orgName in
      case fs_readFileSync env (ccpPath dirname orgName) of
        Inl e \<Rightarrow> Inl e
      | Inr text \<Rightarrow>
      (case JSON_parse env text of
        Inl e \<Rightarrow> Inl e
      | Inr ccp \<Rightarrow>
      (case Wallets_newFileSystemWallet env (walletPath dirname orgName) of
        Some e \<Rightarrow> Inl e
      | None \<Rightarrow>
      (case wallet_get env (walletPath dirname orgName) ''admin'' of
        Inl e \<Rightarrow> Inl e
      | Inr None \<Rightarrow> Inl (JsError (''Admin identity not found in wallet for '' @ orgName))
      | Inr (Some ident) \<Rightarrow>
      (case gateway_connect env gw ccp (connectionOptions (walletPath dirname orgName)) of
        Some e \<Rightarrow> Inl e
      | None \<Rightarrow>
      (case gateway_getNetwork env gw CHANNEL_NAME of
        Inl e \<Rightarrow> Inl e
      | Inr nw \<Rightarrow>
      (case network_getContract env nw CONTRACT_NAME of
        Inl e \<Rightarrow> Inl e
      | Inr c \<Rightarrow> Inr \<lparr>gateway = Some gw, contract = Some c\<rparr>)))))))"

definition initializeFabricForOrg ::
  "sdk \<Rightarrow> path \<Rightarrow> server_state \<Rightarrow> string \<Rightarrow> server_state \<times> connection" where
  "initializeFabricForOrg env dirname st orgName =
     (case try_connect env dirname orgName of
        Inr conn \<Rightarrow> (console_log (''Connected to Fabric for '' @ orgName @ ''!'') st, conn)
      | Inl e \<Rightarrow>
          (console_error (''Failed to connect to Fabric for '' @ orgName @ '': '' @ message e) st,
           \<lparr>gateway = None, contract = None\<rparr>))"

text \<open>The assignment \<^verbatim>\<open>orgConnections[orgName] = conn\<close>.\<close>

definition set_connection :: "string \<Rightarrow> connection \<Rightarrow> server_state \<Rightarrow> server_state" where
  "set_connection orgName conn st =
     st\<lparr>orgConnections := AList.update orgName conn (orgConnections st)\<rparr>"

definition initializeFabric :: "sdk \<Rightarrow> path \<Rightarrow> server_state \<Rightarrow> server_state" where
  "initializeFabric env dirname st =
     (case initializeFabricForOrg env dirname st ORG1_NAME of (st1, conn1) \<Rightarrow>
      (case initializeFabricForOrg env dirname (set_connection ORG1_NAME conn1 st1) ORG2_NAME of
         (st2, conn2) \<Rightarrow>
           (let st3 = set_connection ORG2_NAME conn2 st2;
                hasFabricConnection =
                  list_ex (\<lambda>conn. contract conn \<noteq> None) (map snd (orgConnections st3))
            in if \<not> hasFabricConnection
               then console_log ''Falling back to in-memory storage due to Fabric connection failure'' st3
               else st3)))"

section \<open>Shutdown\<close>

text \<open>
  The handler of \<^verbatim>\<open>SIGINT\<close> is an \<^verbatim>\<open>async\<close> function with no \<^verbatim>\<open>try\<close>: a
  \<^verbatim>\<open>disconnect\<close> that throws rejects the handler's promise there, and the statements
  after it, \<^verbatim>\<open>process.exit(0)\<close> among them, do not run.
\<close>

datatype shutdown = Exited nat | UnhandledRejection js_error

definition disconnect_org :: "sdk \<Rightarrow> server_state \<Rightarrow> string \<Rightarrow> server_state \<times> js_error option" where
  "disconnect_org env st orgName =
     (case (case map_of (orgConnections st) orgName of None \<Rightarrow> None | Some conn \<Rightarrow> gateway conn) of
        None \<Rightarrow> (st, None)
      | Some g \<Rightarrow>
          (st\<lparr>ledger_calls := ledger_calls st @ [Disconnect g]\<rparr>, gateway_disconnect env g))"

definition sigint :: "sdk \<Rightarrow> server_state \<Rightarrow> server_state \<times> shutdown" where
  "sigint env st =
     (let st0 = console_log ''Shutting down server...'' st in
      case disconnect_org env st0 ORG1_NAME of
        (st1, Some e) \<Rightarrow> (st1, UnhandledRejection e)
      | (st1, None) \<Rightarrow>
          (case disconnect_org env st1 ORG2_NAME of
             (st2, Some e) \<Rightarrow> (st2, UnhandledRejection e)
           | (st2, None) \<Rightarrow> (st2, Exited 0)))"

section \<open>Provisioning the wallets\<close>

text \<open>
  The state of \<^verbatim>\<open>setup-wallets.js\<close>: the wallet directory (\<open>None\<close> when it does
  not exist, otherwise the wallets in it by path, each a map from label to identity) and
  the console.
\<close>

record setup_state =
  wallet_dir :: "(path \<rightharpoonup> (string \<rightharpoonup> identity)) option"
  printed :: "console_line list"

definition say :: "string \<Rightarrow> setup_state \<Rightarrow> setup_state" where
  "say m st = st\<lparr>printed := printed st @ [ConsoleLog m]\<rparr>"

definition say_error :: "string \<Rightarrow> setup_state \<Rightarrow> setup_state" where
  "say_error m st = st\<lparr>printed := printed st @ [ConsoleError m]\<rparr>"

definition mspPath :: "path \<Rightarrow> string \<Rightarrow> path" where
  "mspPath dirname orgName =
     dirname @ [''..'', ''fabric-samples'', ''test-network'', ''organizations'',
                ''peerOrganizations'', orgName, ''users'', ''Admin@'' @ orgName, ''msp'']"

definition certPath :: "path \<Rightarrow> string \<Rightarrow> path" where
  "certPath dirname orgName = mspPath dirname orgName @ [''signcerts'', ''cert.pem'']"

definition keyPath :: "path \<Rightarrow> string \<Rightarrow> path" where
  "keyPath dirname orgName = mspPath dirname orgName @ [''keystore'']"

text \<open>
  \<^verbatim>\<open>Wallets.newFileSystemWallet(p)\<close> creates the directory of the wallet when it is
  not there; \<^verbatim>\<open>wallet.put(label, identity)\<close> writes the identity under the label.
\<close>

definition open_wallet :: "path \<Rightarrow> setup_state \<Rightarrow> setup_state" where
  "open_wallet p st =
     (let dir = (case wallet_dir st of None \<Rightarrow> Map.empty | Some d \<Rightarrow> d);
          w = (case dir p of None \<Rightarrow> Map.empty | Some w \<Rightarrow> w)
      in st\<lparr>wallet_dir := Some (dir(p \<mapsto> w))\<rparr>)"

definition put_identity :: "path \<Rightarrow> string \<Rightarrow> identity \<Rightarrow> setup_state \<Rightarrow> setup_state" where
  "put_identity p label ident st =
     (let dir = (case wallet_dir st of None \<Rightarrow> Map.empty | Some d \<Rightarrow> d);
          w = (case dir p of None \<Rightarrow> Map.empty | Some w \<Rightarrow> w)
      in st\<lparr>wallet_dir := Some (dir(p \<mapsto> w(label \<mapsto> ident)))\<rparr>)"

text \<open>
  The \<^verbatim>\<open>try\<close> block of \<^verbatim>\<open>createWallet\<close>. The key file is the first name
  \<^verbatim>\<open>readdirSync\<close> lists; on an empty listing it is \<^verbatim>\<open>undefined\<close>, and
  \<^verbatim>\<open>path.join\<close> throws a \<^verbatim>\<open>TypeError\<close> on it.
\<close>

definition try_createWallet ::
  "sdk \<Rightarrow> path \<Rightarrow> setup_state \<Rightarrow> string \<Rightarrow> setup_state \<times> js_error option" where
  "try_createWallet env dirname st orgName =
     (case fs_readFileSync env (certPath dirname orgName) of
        Inl e \<Rightarrow> (st, Some e)
      | Inr cert \<Rightarrow>
      (case fs_readdirSync env (keyPath dirname orgName) of
        Inl e \<Rightarrow> (st, Some e)
      | Inr [] \<Rightarrow> (st, Some (TypeError ''The path argument must be of type string''))
      | Inr (keyFile # others) \<Rightarrow>
      (case fs_readFileSync env (keyPath dirname orgName @ [keyFile]) of
        Inl e \<Rightarrow> (st, Some e)
      | Inr key \<Rightarrow>
      (case Wallets_newFileSystemWallet env (walletPath dirname orgName) of
        Some e \<Rightarrow> (st, Some e)
      | None \<Rightarrow>
      (let st1 = open_wallet (walletPath dirname orgName) st;
           ident = \<lparr>certificate = cert, privateKey = key,
                    mspId = (if orgName = ''org1.example.com'' then ''Org1MSP'' else ''Org2MSP''),
                    type = ''X.509''\<rparr>
       in case wallet_put env (walletPath dirname orgName) ''admin'' ident of
            Some e \<Rightarrow> (st1, Some e)
          | None \<Rightarrow>
              (say (''Successfully created wallet for '' @ orgName @ '' with admin identity.'')
                 (put_identity (walletPath dirname orgName) ''admin'' ident st1),
               None))))))"

definition createWallet :: "sdk \<Rightarrow> path \<Rightarrow> setup_state \<Rightarrow> string \<Rightarrow> setup_state" where
  "createWallet env dirname st orgName =
     (case try_createWallet env dirname (say (''Creating wallet for '' @ orgName @ ''...'') st) orgName of
        (st1, None) \<Rightarrow> st1
      | (st1, Some e) \<Rightarrow> say_error (''Error creating wallet for '' @ orgName @ '':'') st1)"

text \<open>
  \<^verbatim>\<open>main\<close>: the second component is the error \<^verbatim>\<open>main\<close> rejects with, which
  only the removal of the old wallets can raise.
\<close>

definition main :: "sdk \<Rightarrow> path \<Rightarrow> setup_state \<Rightarrow> setup_state \<times> js_error option" where
  "main env dirname st =
     (case (if wallet_dir st \<noteq> None
            then (case fs_rmSync env (dirname @ [''wallet'']) of
                    Some e \<Rightarrow> (say ''Removing old wallets...'' st, Some e)
                  | None \<Rightarrow> ((say ''Removing old wallets...'' st)\<lparr>wallet_dir := None\<rparr>, None))
            else (st, None)) of
        (st1, Some e) \<Rightarrow> (st1, Some e)
      | (st1, None) \<Rightarrow>
          (createWallet env dirname (createWallet env dirname st1 ''org1.example.com'') ''org2.example.com'',
           None))"

section \<open>Concrete inputs\<close>

text \<open>
  A collaborator with no ledger network and no files: reads and connections fail, the
  wallet exists and is empty.
\<close>

definition offline :: sdk where
  "offline =
     \<lparr>fs_readFileSync = (\<lambda>p. Inl (JsError ''ENOENT'')),
      fs_readdirSync = (\<lambda>p. Inl (JsError ''ENOENT'')),
      fs_rmSync = (\<lambda>p. None),
      JSON_parse = (\<lambda>s. Inl (JsError ''Unexpected end of JSON input'')),
      Wallets_newFileSystemWallet = (\<lambda>p. None),
      wallet_get = (\<lambda>p l. Inr None),
      wallet_put = (\<lambda>p l i. None),
      gateway_connect = (\<lambda>g c opts. Some (JsError ''ECONNREFUSED'')),
      gateway_getNetwork = (\<lambda>g n. Inl (JsError ''ECONNREFUSED'')),
      network_getContract = (\<lambda>n c. Inl (JsError ''ECONNREFUSED'')),
      contract_submitTransaction = (\<lambda>c f args. Inl (JsError ''ECONNREFUSED'')),
      contract_evaluateTransaction = (\<lambda>c f args. Inl (JsError ''ECONNREFUSED'')),
      gateway_disconnect = (\<lambda>g. None)\<rparr>"

definition boot :: server_state where
  "boot = \<lparr>orgConnections = [], claimsLogs = [], ledger_calls = [], console = []\<rparr>"

definition contract1 :: contract where
  "contract1 = Contract (Network (Gateway ''org1.example.com'') ''mychannel'') ''logcc''"

definition contract2 :: contract where
  "contract2 = Contract (Network (Gateway ''org2.example.com'') ''mychannel'') ''logcc''"

definition live1 :: connection where
  "live1 = \<lparr>gateway = Some (Gateway ''org1.example.com''), contract = Some contract1\<rparr>"

definition live2 :: connection where
  "live2 = \<lparr>gateway = Some (Gateway ''org2.example.com''), contract = Some contract2\<rparr>"

definition unavailable :: connection where
  "unavailable = \<lparr>gateway = None, contract = None\<rparr>"

text \<open>The state after a start-up in which only the first organization connected, and one in which both did.\<close>

definition org1_live :: server_state where
  "org1_live =
     boot\<lparr>orgConnections := [(''org1.example.com'', live1), (''org2.example.com'', unavailable)]\<rparr>"

definition both_live :: server_state where
  "both_live =
     boot\<lparr>orgConnections := [(''org1.example.com'', live1), (''org2.example.com'', live2)]\<rparr>"

definition asha :: jsval where
  "asha =
     JObj [(''claimId'', JStr ''C1''), (''farmerName'', JStr ''Asha''),
           (''cropType'', JStr ''Wheat''), (''status'', JStr ''Filed'')]"

definition noon :: clock where
  "noon =
     \<lparr>Date_now = 1700000000000,
      iso_timestamp = ''2023-11-14T22:13:20.000Z'',
      iso_createdAt = ''2023-11-14T22:13:20.001Z''\<rparr>"

text \<open>
  A collaborator whose ledger accepts every submitted transaction and returns the given
  bytes, and whose \<^verbatim>\<open>JSON.parse\<close> knows the empty array.
\<close>

definition answering :: "string \<Rightarrow> sdk" where
  "answering bytes =
     offline\<lparr>JSON_parse := (\<lambda>s. if s = ''[]'' then Inr (JArr []) else Inl (JsError ''Unexpected token'')),
             contract_submitTransaction := (\<lambda>c f args. Inr bytes)\<rparr>"

definition backdated :: jsval where
  "backdated =
     JObj [(''claimId'', JStr ''C1''), (''farmerName'', JStr ''Asha''),
           (''cropType'', JStr ''Wheat''), (''status'', JStr ''Filed''),
           (''id'', JStr ''mine''), (''createdAt'', JStr ''1999-01-01T00:00:00.000Z'')]"

text \<open>
  A start-up in which only the second organization has its connection profile and its
  admin identity, and the network answers.
\<close>

definition admin2 :: identity where
  "admin2 = \<lparr>certificate = ''CERT2'', privateKey = ''KEY2'', mspId = ''Org2MSP'', type = ''X.509''\<rparr>"

definition only_org2 :: sdk where
  "only_org2 =
     offline\<lparr>fs_readFileSync :=
               (\<lambda>p. if p = ccpPath [''srv''] ''org2.example.com'' then Inr ''{}''
                    else Inl (JsError ''ENOENT'')),
             JSON_parse := (\<lambda>s. if s = ''{}'' then Inr (JObj []) else Inl (JsError ''Unexpected token'')),
             wallet_get :=
               (\<lambda>p l. if p = walletPath [''srv''] ''org2.example.com'' \<and> l = ''admin''
                      then Inr (Some admin2) else Inr None),
             gateway_connect := (\<lambda>g c opts. None),
             gateway_getNetwork := (\<lambda>g n. Inr (Network g n)),
             network_getContract := (\<lambda>n c. Inr (Contract n c))\<rparr>"

text \<open>A network on which disconnecting the first organization's gateway throws.\<close>

definition stuck1 :: sdk where
  "stuck1 =
     offline\<lparr>gateway_disconnect :=
               (\<lambda>g. if g = Gateway ''org1.example.com'' then Some (JsError ''disconnect failed'')
                    else None)\<rparr>"

text \<open>A network on which disconnecting the second organization's gateway throws.\<close>

definition stuck2 :: sdk where
  "stuck2 =
     offline\<lparr>gateway_disconnect :=
               (\<lambda>g. if g = Gateway ''org2.example.com'' then Some (JsError ''disconnect failed'')
                    else None)\<rparr>"

text \<open>What \<^verbatim>\<open>wallet.get(label)\<close> would read from the wallet at a path.\<close>

definition stored_identity :: "setup_state \<Rightarrow> path \<Rightarrow> string \<Rightarrow> identity option" where
  "stored_identity st p label =
     (case wallet_dir st of
        None \<Rightarrow> None
      | Some dir \<Rightarrow> (case dir p of None \<Rightarrow> None | Some w \<Rightarrow> w label))"

definition fresh :: setup_state where
  "fresh = \<lparr>wallet_dir = None, printed = []\<rparr>"

text \<open>
  Crypto material in which the first organization's keystore holds two key files, and the
  second organization has no certificate.
\<close>

definition two_keys :: sdk where
  "two_keys =
     offline\<lparr>fs_readFileSync :=
               (\<lambda>p. if p = certPath [''srv''] ''org1.example.com'' then Inr ''CERT1''
                    else if p = keyPath [''srv''] ''org1.example.com'' @ [''a_sk''] then Inr ''KEY-A''
                    else if p = keyPath [''srv''] ''org1.example.com'' @ [''b_sk''] then Inr ''KEY-B''
                    else Inl (JsError ''ENOENT'')),
             fs_readdirSync :=
               (\<lambda>p. if p = keyPath [''srv''] ''org1.example.com'' then Inr [''a_sk'', ''b_sk'']
                    else Inl (JsError ''ENOENT''))\<rparr>"

text \<open>Crypto material in which only the second organization has a certificate and a key.\<close>

definition org2_material :: sdk where
  "org2_material =
     offline\<lparr>fs_readFileSync :=
               (\<lambda>p. if p = certPath [''srv''] ''org2.example.com'' then Inr ''CERT2''
                    else if p = keyPath [''srv''] ''org2.example.com'' @ [''priv_sk''] then Inr ''KEY2''
                    else Inl (JsError ''ENOENT'')),
             fs_readdirSync :=
               (\<lambda>p. if p = keyPath [''srv''] ''org2.example.com'' then Inr [''priv_sk'']
                    else Inl (JsError ''ENOENT''))\<rparr>"

section \<open>Facts about the routes\<close>

lemma missing_required_nullish: "nullish v \<Longrightarrow> missing_required v"
  by (cases v) (simp_all add: missing_required_def)

lemma required_missing:
  assumes "k \<in> set required" and "\<not> truthy (get_prop claimLog k)"
  shows "missing_required claimLog"
  using assms by (auto simp: required_def missing_required_def)

lemma bad_request_eq:
  "bad_request =
     \<lparr>status = 400,
      body = JObj [(''error'', JStr ''Missing required fields''),
                   (''required'', JArr [JStr ''claimId'', JStr ''farmerName'', JStr ''cropType'', JStr ''status''])]\<rparr>"
  by (simp add: bad_request_def res_status_json_def required_def)

lemma console_log_fields [simp]:
  "orgConnections (console_log m st) = orgConnections st"
  "claimsLogs (console_log m st) = claimsLogs st"
  "ledger_calls (console_log m st) = ledger_calls st"
  by (simp_all add: console_log_def)

lemma has_contract_console_log [simp]:
  "has_contract (console_log m st) orgName = has_contract st orgName"
  by (simp add: has_contract_def)

text \<open>A body that fails validation is answered 400 after the first console line and nothing else.\<close>

lemma post_rejected:
  assumes "\<not> nullish claimLog" and "missing_required claimLog"
  shows "post_claims_logs env clk st orgName claimLog =
           (console_log (''Received claim log for '' @ orgName @ '':'') st, bad_request)"
  using assms by (simp add: post_claims_logs_def post_claims_logs_body_def catch_500_def)

text \<open>The ledger branch of the POST handler, with the call it makes written out.\<close>

lemma post_ledger:
  assumes "\<not> missing_required claimLog"
    and "map_of (orgConnections st) orgName = Some conn" and "contract conn = Some c"
  shows "post_claims_logs_body env clk st orgName claimLog =
     (let st3 = (console_log (''Adding claim log to blockchain using '' @ orgName @ '' credentials...'')
                  (console_log (''Received claim log for '' @ orgName @ '':'') st))
                \<lparr>ledger_calls := ledger_calls st @ [SubmitTransaction c ''AddClaimLog'' (add_claim_log_args clk claimLog)]\<rparr>
      in case contract_submitTransaction env c ''AddClaimLog'' (add_claim_log_args clk claimLog) of
           Inl e \<Rightarrow> (st3, Inl e)
         | Inr result \<Rightarrow>
             (case (if result \<noteq> [] then JSON_parse env result else Inr (JObj [])) of
                Inl e \<Rightarrow> (st3, Inl e)
              | Inr response \<Rightarrow>
                  (console_log (''Successfully added claim log to blockchain via '' @ orgName) st3,
                   Inr (res_json response))))"
proof -
  have n: "\<not> nullish claimLog"
    using assms(1) missing_required_nullish by blast
  have h: "has_contract st orgName"
    using assms(2,3) by (simp add: has_contract_def)
  show ?thesis
    using n h assms
    by (simp add: post_claims_logs_body_def submitTransaction_def Let_def split: sum.splits)
qed

text \<open>The fallback branch of the POST handler.\<close>

lemma post_fallback:
  assumes "\<not> missing_required claimLog" and "\<not> has_contract st orgName"
  shows "post_claims_logs env clk st orgName claimLog =
     (console_log ''Successfully added claim log to local storage''
        ((console_log ''Adding claim log to local storage...''
           (console_log (''Received claim log for '' @ orgName @ '':'') st))
         \<lparr>claimsLogs := claimsLogs st @ [stamp clk claimLog]\<rparr>),
      res_json (stamp clk claimLog))"
proof -
  have n: "\<not> nullish claimLog"
    using assms(1) missing_required_nullish by blast
  show ?thesis
    using n assms
    by (simp add: post_claims_logs_def post_claims_logs_body_def catch_500_def Let_def)
qed

text \<open>The fallback branch of the GET handler.\<close>

lemma get_fallback:
  assumes "\<not> has_contract st orgName"
  shows "get_claims_logs env st orgName =
     (console_log ''Fetching claims logs from local storage...''
        (console_log (''Fetching claims logs for '' @ orgName @ '' from blockchain...'') st),
      res_json (JArr (claimsLogs st)))"
  using assms
  by (simp add: get_claims_logs_def get_claims_logs_body_def catch_500_def Let_def)


section \<open>Validation of a posted claim log\<close>




text \<open>
  Claim C10. The validation tests truthiness, not presence: a body in which a required
  field is present and bound to the empty string, the number 0, \<^verbatim>\<open>false\<close> or
  \<^verbatim>\<open>null\<close> gets the same answer and leaves the same state as the body with that
  field removed, and the answer is the 400 of C1.
\<close>

theorem C10_falsy_field_rejected:
  assumes "k \<in> set required" and "map_of fs k = Some v"
    and "v \<in> {JStr [], JNum 0, JBool False, JNull}"
  shows "post_claims_logs env clk st orgName (JObj fs) =
           post_claims_logs env clk st orgName (JObj (AList.delete k fs))
         \<and> snd (post_claims_logs env clk st orgName (JObj fs)) =
           \<lparr>status = 400,
            body = JObj [(''error'', JStr ''Missing required fields''),
                         (''required'', JArr [JStr ''claimId'', JStr ''farmerName'',
                                              JStr ''cropType'', JStr ''status''])]\<rparr>"
proof -
  have "\<not> truthy (get_prop (JObj fs) k)"
    using assms(2,3) by auto
  then have present: "missing_required (JObj fs)"
    using assms(1) required_missing by blast
  have "get_prop (JObj (AList.delete k fs)) k = JUndefined"
    by (simp add: delete_conv')
  then have absent: "missing_required (JObj (AList.delete k fs))"
    using assms(1) required_missing[of k] by simp
  show ?thesis
    using present absent by (simp add: post_rejected bad_request_eq)
qed

text \<open>C10 at a body whose \<^verbatim>\<open>claimId\<close> is the number 0.\<close>

theorem C10_witness:
  "post_claims_logs offline noon boot ''org1.example.com''
     (JObj [(''claimId'', JNum 0), (''farmerName'', JStr ''Asha''),
            (''cropType'', JStr ''Wheat''), (''status'', JStr ''Filed'')]) =
   post_claims_logs offline noon boot ''org1.example.com''
     (JObj [(''farmerName'', JStr ''Asha''), (''cropType'', JStr ''Wheat''), (''status'', JStr ''Filed'')])
   \<and> status (snd (post_claims_logs offline noon boot ''org1.example.com''
     (JObj [(''claimId'', JNum 0), (''farmerName'', JStr ''Asha''),
            (''cropType'', JStr ''Wheat''), (''status'', JStr ''Filed'')]))) = 400"
proof -
  have k: "''claimId'' \<in> set required"
    by (simp add: required_def)
  have v: "map_of [(''claimId'', JNum 0), (''farmerName'', JStr ''Asha''),
                   (''cropType'', JStr ''Wheat''), (''status'', JStr ''Filed'')] ''claimId'' = Some (JNum 0)"
    by simp
  have f: "JNum 0 \<in> {JStr [], JNum 0, JBool False, JNull}"
    by simp
  show ?thesis
    using C10_falsy_field_rejected [OF k v f, of offline noon boot "''org1.example.com''"]
    by (auto simp: AList.delete_eq)
qed

section \<open>Reading the fallback list\<close>

text \<open>
  Claim C2. For an organization with no live contract handle, a name that was never
  configured included, GET answers 200 with exactly the current fallback list; two such
  organizations get the same answer, since the list is not kept per organization. The
  read changes neither the list nor the ledger trace.
\<close>

theorem C2_fallback_list_shared:
  assumes "\<not> has_contract st orgA" and "\<not> has_contract st orgB"
  shows "snd (get_claims_logs env st orgA) = \<lparr>status = 200, body = JArr (claimsLogs st)\<rparr>
         \<and> snd (get_claims_logs env st orgA) = snd (get_claims_logs env st orgB)
         \<and> claimsLogs (fst (get_claims_logs env st orgA)) = claimsLogs st
         \<and> ledger_calls (fst (get_claims_logs env st orgA)) = ledger_calls st"
  using assms by (simp add: get_fallback res_json_def)

text \<open>C2 at the second organization, configured but not connected, and at a name never configured.\<close>

theorem C2_witness:
  "snd (get_claims_logs offline (org1_live\<lparr>claimsLogs := [asha]\<rparr>) ''org2.example.com'') =
     \<lparr>status = 200, body = JArr [asha]\<rparr>
   \<and> snd (get_claims_logs offline (org1_live\<lparr>claimsLogs := [asha]\<rparr>) ''org2.example.com'') =
     snd (get_claims_logs offline (org1_live\<lparr>claimsLogs := [asha]\<rparr>) ''never.configured'')"
proof -
  have a: "\<not> has_contract (org1_live\<lparr>claimsLogs := [asha]\<rparr>) ''org2.example.com''"
    by (simp add: has_contract_def org1_live_def boot_def unavailable_def)
  have b: "\<not> has_contract (org1_live\<lparr>claimsLogs := [asha]\<rparr>) ''never.configured''"
    by (simp add: has_contract_def org1_live_def boot_def)
  show ?thesis
    using C2_fallback_list_shared [OF a b, of offline] by auto
qed

section \<open>Writing through a live handle\<close>

text \<open>
  Claim C3. A valid POST for an organization with a live contract handle makes one call
  on that contract: \<^verbatim>\<open>AddClaimLog\<close> with the five arguments claim id, farmer name, crop
  type, the body's timestamp or else the current time, and status, in that order. The
  fallback list is not touched on this path, whatever the ledger answers.
\<close>

theorem C3_ledger_write_arguments:
  assumes "\<not> missing_required claimLog"
    and "map_of (orgConnections st) orgName = Some conn" and "contract conn = Some c"
  shows "ledger_calls (fst (post_claims_logs env clk st orgName claimLog)) =
           ledger_calls st @
           [SubmitTransaction c ''AddClaimLog''
              [get_prop claimLog ''claimId'',
               get_prop claimLog ''farmerName'',
               get_prop claimLog ''cropType'',
               (if truthy (get_prop claimLog ''timestamp'') then get_prop claimLog ''timestamp''
                else JStr (iso_timestamp clk)),
               get_prop claimLog ''status'']]
         \<and> claimsLogs (fst (post_claims_logs env clk st orgName claimLog)) = claimsLogs st"
  by (simp add: post_claims_logs_def post_ledger[OF assms] catch_500_def Let_def
        add_claim_log_args_def js_or_def console_error_def split: sum.splits)

text \<open>C3 at the claim log of the specification's scenario, posted for the connected first organization.\<close>

theorem C3_witness:
  "ledger_calls (fst (post_claims_logs (answering []) noon org1_live ''org1.example.com'' asha)) =
     [SubmitTransaction contract1 ''AddClaimLog''
        [JStr ''C1'', JStr ''Asha'', JStr ''Wheat'', JStr ''2023-11-14T22:13:20.000Z'', JStr ''Filed'']]
   \<and> claimsLogs (fst (post_claims_logs (answering []) noon org1_live ''org1.example.com'' asha)) = []"
proof -
  have v: "\<not> missing_required asha"
    by (simp add: missing_required_def asha_def)
  have m: "map_of (orgConnections org1_live) ''org1.example.com'' = Some live1"
    by (simp add: org1_live_def boot_def)
  have c: "contract live1 = Some contract1"
    by (simp add: live1_def)
  have s: "claimsLogs org1_live = [] \<and> ledger_calls org1_live = []"
    by (simp add: org1_live_def boot_def)
  show ?thesis
    using C3_ledger_write_arguments [OF v m c, of "answering []" noon] s
    by (simp add: asha_def noon_def)
qed

text \<open>
  Claim C9. When the ledger write returns an empty byte string, the answer is 200 with the
  empty object, which is not the submitted claim log; when it returns a non-empty one, the
  answer is 200 with what \<^verbatim>\<open>JSON.parse\<close> decodes from it (and 500 when it cannot be
  decoded).
\<close>

theorem C9_empty_result_gives_empty_record:
  assumes "\<not> missing_required claimLog"
    and "map_of (orgConnections st) orgName = Some conn" and "contract conn = Some c"
    and "contract_submitTransaction env c ''AddClaimLog'' (add_claim_log_args clk claimLog) = Inr result"
  shows "snd (post_claims_logs env clk st orgName claimLog) =
           (if result = [] then \<lparr>status = 200, body = JObj []\<rparr>
            else case JSON_parse env result of
                   Inr decoded \<Rightarrow> \<lparr>status = 200, body = decoded\<rparr>
                 | Inl e \<Rightarrow>
                     \<lparr>status = 500,
                      body = JObj [(''error'', JStr ''Failed to add claim log''),
                                   (''details'', JStr (message e))]\<rparr>)
         \<and> claimLog \<noteq> JObj []"
proof -
  have "claimLog \<noteq> JObj []"
    using assms(1) by (auto simp: missing_required_def)
  then show ?thesis
    using assms(4)
    by (simp add: post_claims_logs_def post_ledger[OF assms(1-3)] catch_500_def Let_def
          res_json_def res_status_json_def split: sum.splits)
qed

text \<open>C9 at a ledger that returns no bytes, and at one that returns the bytes of an empty array.\<close>

theorem C9_witness:
  "snd (post_claims_logs (answering []) noon org1_live ''org1.example.com'' asha) =
     \<lparr>status = 200, body = JObj []\<rparr>
   \<and> snd (post_claims_logs (answering ''[]'') noon org1_live ''org1.example.com'' asha) =
     \<lparr>status = 200, body = JArr []\<rparr>"
proof -
  have v: "\<not> missing_required asha"
    by (simp add: missing_required_def asha_def)
  have m: "map_of (orgConnections org1_live) ''org1.example.com'' = Some live1"
    by (simp add: org1_live_def boot_def)
  have c: "contract live1 = Some contract1"
    by (simp add: live1_def)
  have r0: "contract_submitTransaction (answering []) contract1 ''AddClaimLog'' (add_claim_log_args noon asha) = Inr []"
    by (simp add: answering_def)
  have r1: "contract_submitTransaction (answering ''[]'') contract1 ''AddClaimLog'' (add_claim_log_args noon asha) = Inr ''[]''"
    by (simp add: answering_def)
  have p: "JSON_parse (answering ''[]'') ''[]'' = Inr (JArr [])"
    by (simp add: answering_def)
  show ?thesis
    using C9_empty_result_gives_empty_record [OF v m c r0]
      C9_empty_result_gives_empty_record [OF v m c r1] p
    by simp
qed

section \<open>Writing to the fallback list\<close>

text \<open>The id is a non-empty string of decimal digits.\<close>

lemma nat_toString_digits:
  "set (nat_toString n) \<subseteq> set ''0123456789'' \<and> nat_toString n \<noteq> []"
proof (induction n rule: nat_toString.induct)
  case (1 n)
  have d: "\<And>d. d < 10 \<Longrightarrow> digit_char d \<in> set ''0123456789''"
    unfolding digit_char_def by (rule nth_mem) simp
  show ?case
  proof (cases "n < 10")
    case True
    then show ?thesis
      using d[of n] by (subst nat_toString.simps, subst nat_toString.simps) simp
  next
    case False
    then show ?thesis
      using 1 d[of "n mod 10"]
      by (subst nat_toString.simps, subst (2) nat_toString.simps) simp
  qed
qed

text \<open>What each property of the stored record is, after the three assignments.\<close>

lemma stamp_fields:
  "get_prop (stamp clk (JObj fs)) k =
     (if k = ''createdAt'' then js_or (get_prop (JObj fs) ''createdAt'') (JStr (iso_createdAt clk))
      else if k = ''timestamp'' then js_or (get_prop (JObj fs) ''timestamp'') (JStr (iso_timestamp clk))
      else if k = ''id'' then JStr (nat_toString (Date_now clk))
      else get_prop (JObj fs) k)"
  by (simp add: stamp_def Let_def update_conv')

lemma valid_is_object:
  assumes "\<not> missing_required claimLog"
  obtains fs where "claimLog = JObj fs"
  using assms by (cases claimLog) (simp_all add: missing_required_def)

text \<open>
  Claim C5 says that the fallback branch assigns both \<^verbatim>\<open>id\<close> and
  \<^verbatim>\<open>createdAt\<close> itself and takes neither from the caller. The handler assigns
  \<^verbatim>\<open>claimLog.createdAt || new Date().toISOString()\<close>: a body that carries a
  \<^verbatim>\<open>createdAt\<close> keeps it, here a date of 1999 under a clock of 2023.
\<close>

theorem C5_caller_createdAt_kept:
  "get_prop (body (snd (post_claims_logs offline noon boot ''org1.example.com'' backdated))) ''createdAt''
     = JStr ''1999-01-01T00:00:00.000Z''
   \<and> JStr ''1999-01-01T00:00:00.000Z'' \<noteq> JStr (iso_createdAt noon)"
proof -
  have v: "\<not> missing_required backdated"
    by (simp add: missing_required_def backdated_def)
  have h: "\<not> has_contract boot ''org1.example.com''"
    by (simp add: has_contract_def boot_def)
  show ?thesis
    by (simp add: post_fallback[OF v h] res_json_def)
       (simp add: backdated_def stamp_fields js_or_def noon_def)
qed

text \<open>
  Claim C5, amended. A valid POST for an organization with no live handle is answered 200
  with the stored record. Its \<^verbatim>\<open>id\<close> is always the server's: the decimal digits of
  \<^verbatim>\<open>Date.now()\<close>, whatever the caller sent. Its \<^verbatim>\<open>createdAt\<close> and
  \<^verbatim>\<open>timestamp\<close> are the caller's when the caller sent a truthy one, and the server's
  current time otherwise. Every other property is the caller's. A GET on the same path
  right after returns the fallback list with that record, as answered, at its end.
\<close>

theorem C5_fallback_record:
  assumes "\<not> missing_required claimLog" and "\<not> has_contract st orgName"
  shows "status (snd (post_claims_logs env clk st orgName claimLog)) = 200
    \<and> get_prop (body (snd (post_claims_logs env clk st orgName claimLog))) ''id'' =
        JStr (nat_toString (Date_now clk))
    \<and> set (nat_toString (Date_now clk)) \<subseteq> set ''0123456789''
    \<and> nat_toString (Date_now clk) \<noteq> []
    \<and> get_prop (body (snd (post_claims_logs env clk st orgName claimLog))) ''createdAt'' =
        (if truthy (get_prop claimLog ''createdAt'') then get_prop claimLog ''createdAt''
         else JStr (iso_createdAt clk))
    \<and> get_prop (body (snd (post_claims_logs env clk st orgName claimLog))) ''timestamp'' =
        (if truthy (get_prop claimLog ''timestamp'') then get_prop claimLog ''timestamp''
         else JStr (iso_timestamp clk))
    \<and> (\<forall>k. k \<notin> {''id'', ''timestamp'', ''createdAt''} \<longrightarrow>
          get_prop (body (snd (post_claims_logs env clk st orgName claimLog))) k = get_prop claimLog k)
    \<and> snd (get_claims_logs env' (fst (post_claims_logs env clk st orgName claimLog)) orgName) =
        \<lparr>status = 200,
         body = JArr (claimsLogs st @ [body (snd (post_claims_logs env clk st orgName claimLog))])\<rparr>"
proof -
  obtain fs where fs: "claimLog = JObj fs"
    using assms(1) by (rule valid_is_object)
  have post: "post_claims_logs env clk st orgName claimLog =
     (console_log ''Successfully added claim log to local storage''
        ((console_log ''Adding claim log to local storage...''
           (console_log (''Received claim log for '' @ orgName @ '':'') st))
         \<lparr>claimsLogs := claimsLogs st @ [stamp clk claimLog]\<rparr>),
      res_json (stamp clk claimLog))"
    using assms by (rule post_fallback)
  have still: "\<not> has_contract (fst (post_claims_logs env clk st orgName claimLog)) orgName"
    using assms(2) by (simp add: post has_contract_def)
  have later: "snd (get_claims_logs env' (fst (post_claims_logs env clk st orgName claimLog)) orgName) =
      res_json (JArr (claimsLogs st @ [stamp clk claimLog]))"
    by (simp add: get_fallback[OF still]) (simp add: post)
  have resp: "snd (post_claims_logs env clk st orgName claimLog) = \<lparr>status = 200, body = stamp clk claimLog\<rparr>"
    by (simp add: post res_json_def)
  have fields: "get_prop (stamp clk claimLog) ''id'' = JStr (nat_toString (Date_now clk))
    \<and> get_prop (stamp clk claimLog) ''createdAt'' =
        (if truthy (get_prop claimLog ''createdAt'') then get_prop claimLog ''createdAt''
         else JStr (iso_createdAt clk))
    \<and> get_prop (stamp clk claimLog) ''timestamp'' =
        (if truthy (get_prop claimLog ''timestamp'') then get_prop claimLog ''timestamp''
         else JStr (iso_timestamp clk))
    \<and> (\<forall>k. k \<notin> {''id'', ''timestamp'', ''createdAt''} \<longrightarrow>
          get_prop (stamp clk claimLog) k = get_prop claimLog k)"
    by (simp add: fs stamp_fields js_or_def)
  show ?thesis
    unfolding resp later
    using fields nat_toString_digits[of "Date_now clk"]
    by (simp add: res_json_def del: set_simps list.set)
qed

text \<open>C5 at the claim log of the specification's scenario, with no organization connected.\<close>

theorem C5_witness:
  "body (snd (post_claims_logs offline noon boot ''org1.example.com'' asha)) =
     JObj [(''claimId'', JStr ''C1''), (''farmerName'', JStr ''Asha''),
           (''cropType'', JStr ''Wheat''), (''status'', JStr ''Filed''),
           (''id'', JStr ''1700000000000''),
           (''timestamp'', JStr ''2023-11-14T22:13:20.000Z''),
           (''createdAt'', JStr ''2023-11-14T22:13:20.001Z'')]
   \<and> get_prop (body (snd (post_claims_logs offline noon boot ''org1.example.com'' asha))) ''id'' =
       JStr (nat_toString 1700000000000)
   \<and> snd (get_claims_logs offline (fst (post_claims_logs offline noon boot ''org1.example.com'' asha))
            ''org1.example.com'') =
       \<lparr>status = 200, body = JArr [body (snd (post_claims_logs offline noon boot ''org1.example.com'' asha))]\<rparr>"
proof -
  have v: "\<not> missing_required asha"
    by (simp add: missing_required_def asha_def)
  have h: "\<not> has_contract boot ''org1.example.com''"
    by (simp add: has_contract_def boot_def)
  have d: "nat_toString 1700000000000 = ''1700000000000''"
    by (simp add: nat_toString.simps digit_char_def)
  have b: "body (snd (post_claims_logs offline noon boot ''org1.example.com'' asha)) = stamp noon asha"
    by (simp add: post_fallback[OF v h] res_json_def)
  have s: "stamp noon asha =
     JObj [(''claimId'', JStr ''C1''), (''farmerName'', JStr ''Asha''),
           (''cropType'', JStr ''Wheat''), (''status'', JStr ''Filed''),
           (''id'', JStr ''1700000000000''),
           (''timestamp'', JStr ''2023-11-14T22:13:20.000Z''),
           (''createdAt'', JStr ''2023-11-14T22:13:20.001Z'')]"
    by (simp add: stamp_def asha_def noon_def Let_def js_or_def d)
  have e: "claimsLogs boot = [] \<and> Date_now noon = 1700000000000"
    by (simp add: boot_def noon_def)
  show ?thesis
    using C5_fallback_record [OF v h, of offline noon offline] b s e
    by simp
qed

section \<open>The health check\<close>

text \<open>Setting one organization's contract to \<^verbatim>\<open>null\<close> changes the liveness test for that organization only.\<close>

lemma has_contract_toggled:
  "has_contract (st\<lparr>orgConnections := AList.update org (conn\<lparr>contract := None\<rparr>) (orgConnections st)\<rparr>) other
     = (other \<noteq> org \<and> has_contract st other)"
  by (simp add: has_contract_def update_conv')

text \<open>
  Claim C8. The health check answers 200 in every state and leaves the state as it is.
  Each flag is the liveness test of its organization and \<^verbatim>\<open>timestamp\<close> is the clock
  reading of the check; the answer does not depend on the fallback list or on the trace of
  ledger calls. After a live organization's contract is set to \<^verbatim>\<open>null\<close>, a check
  reports \<^verbatim>\<open>false\<close> where it reported \<^verbatim>\<open>true\<close> for that organization, and at
  the same clock reading every other field of the response is what it was; at a later
  reading \<^verbatim>\<open>timestamp\<close> is that reading and the rest is as said.
\<close>

theorem C8_health_reports_handles:
  "health st now =
     (st, \<lparr>status = 200,
           body = JObj [(''status'', JStr ''OK''),
                        (''fabricConnectedOrg1'', JBool (has_contract st ''org1.example.com'')),
                        (''fabricConnectedOrg2'', JBool (has_contract st ''org2.example.com'')),
                        (''timestamp'', JStr now)]\<rparr>)
   \<and> snd (health (st\<lparr>claimsLogs := logs, ledger_calls := calls\<rparr>) now) = snd (health st now)
   \<and> (map_of (orgConnections st) org = Some conn \<and> contract conn \<noteq> None \<longrightarrow>
        has_contract st org
      \<and> snd (health (st\<lparr>orgConnections :=
                          AList.update org (conn\<lparr>contract := None\<rparr>) (orgConnections st)\<rparr>) later) =
           \<lparr>status = 200,
            body = JObj [(''status'', JStr ''OK''),
                         (''fabricConnectedOrg1'',
                            JBool (org \<noteq> ''org1.example.com'' \<and> has_contract st ''org1.example.com'')),
                         (''fabricConnectedOrg2'',
                            JBool (org \<noteq> ''org2.example.com'' \<and> has_contract st ''org2.example.com'')),
                         (''timestamp'', JStr later)]\<rparr>
      \<and> status (snd (health (st\<lparr>orgConnections :=
                          AList.update org (conn\<lparr>contract := None\<rparr>) (orgConnections st)\<rparr>) now)) =
          status (snd (health st now))
      \<and> (\<forall>k. (org = ''org1.example.com'' \<longrightarrow> k \<noteq> ''fabricConnectedOrg1'')
             \<and> (org = ''org2.example.com'' \<longrightarrow> k \<noteq> ''fabricConnectedOrg2'')
           \<longrightarrow> get_prop (body (snd (health (st\<lparr>orgConnections :=
                          AList.update org (conn\<lparr>contract := None\<rparr>) (orgConnections st)\<rparr>) now))) k =
               get_prop (body (snd (health st now))) k))"
proof (intro conjI impI)
  show "health st now =
     (st, \<lparr>status = 200,
           body = JObj [(''status'', JStr ''OK''),
                        (''fabricConnectedOrg1'', JBool (has_contract st ''org1.example.com'')),
                        (''fabricConnectedOrg2'', JBool (has_contract st ''org2.example.com'')),
                        (''timestamp'', JStr now)]\<rparr>)"
    by (simp add: health_def res_json_def ORG1_NAME_def ORG2_NAME_def)
  have "has_contract (st\<lparr>claimsLogs := logs, ledger_calls := calls\<rparr>) = has_contract st"
    by (rule ext) (simp add: has_contract_def)
  then show "snd (health (st\<lparr>claimsLogs := logs, ledger_calls := calls\<rparr>) now) = snd (health st now)"
    by (simp add: health_def)
next
  assume live: "map_of (orgConnections st) org = Some conn \<and> contract conn \<noteq> None"
  then show was: "has_contract st org"
    by (simp add: has_contract_def)
  show "snd (health (st\<lparr>orgConnections :=
                          AList.update org (conn\<lparr>contract := None\<rparr>) (orgConnections st)\<rparr>) later) =
           \<lparr>status = 200,
            body = JObj [(''status'', JStr ''OK''),
                         (''fabricConnectedOrg1'',
                            JBool (org \<noteq> ''org1.example.com'' \<and> has_contract st ''org1.example.com'')),
                         (''fabricConnectedOrg2'',
                            JBool (org \<noteq> ''org2.example.com'' \<and> has_contract st ''org2.example.com'')),
                         (''timestamp'', JStr later)]\<rparr>"
    by (auto simp: health_def res_json_def has_contract_toggled ORG1_NAME_def ORG2_NAME_def)
  show "status (snd (health (st\<lparr>orgConnections :=
                          AList.update org (conn\<lparr>contract := None\<rparr>) (orgConnections st)\<rparr>) now)) =
          status (snd (health st now))"
    by (simp add: health_def res_json_def)
  show "\<forall>k. (org = ''org1.example.com'' \<longrightarrow> k \<noteq> ''fabricConnectedOrg1'')
             \<and> (org = ''org2.example.com'' \<longrightarrow> k \<noteq> ''fabricConnectedOrg2'')
           \<longrightarrow> get_prop (body (snd (health (st\<lparr>orgConnections :=
                          AList.update org (conn\<lparr>contract := None\<rparr>) (orgConnections st)\<rparr>) now))) k =
               get_prop (body (snd (health st now))) k"
    by (auto simp: health_def res_json_def has_contract_toggled ORG1_NAME_def ORG2_NAME_def)
qed

text \<open>
  C8 at the state in which the first organization is connected, before and after its
  contract is set to \<^verbatim>\<open>null\<close>, and at the state with no connection entry at all.
\<close>

theorem C8_witness:
  "snd (health org1_live ''2023-11-14T22:13:20.000Z'') =
     \<lparr>status = 200,
      body = JObj [(''status'', JStr ''OK''), (''fabricConnectedOrg1'', JBool True),
                   (''fabricConnectedOrg2'', JBool False),
                   (''timestamp'', JStr ''2023-11-14T22:13:20.000Z'')]\<rparr>
   \<and> snd (health (org1_live\<lparr>orgConnections :=
          AList.update ''org1.example.com'' (live1\<lparr>contract := None\<rparr>) (orgConnections org1_live)\<rparr>)
        ''2023-11-14T22:13:20.000Z'') =
     \<lparr>status = 200,
      body = JObj [(''status'', JStr ''OK''), (''fabricConnectedOrg1'', JBool False),
                   (''fabricConnectedOrg2'', JBool False),
                   (''timestamp'', JStr ''2023-11-14T22:13:20.000Z'')]\<rparr>
   \<and> health boot ''2023-11-14T22:13:20.000Z'' =
     (boot, \<lparr>status = 200,
      body = JObj [(''status'', JStr ''OK''), (''fabricConnectedOrg1'', JBool False),
                   (''fabricConnectedOrg2'', JBool False),
                   (''timestamp'', JStr ''2023-11-14T22:13:20.000Z'')]\<rparr>)"
proof -
  have m: "map_of (orgConnections org1_live) ''org1.example.com'' = Some live1 \<and> contract live1 \<noteq> None"
    by (simp add: org1_live_def boot_def live1_def)
  have h1: "has_contract org1_live ''org1.example.com''"
    by (simp add: has_contract_def org1_live_def boot_def live1_def)
  have h2: "\<not> has_contract org1_live ''org2.example.com''"
    by (simp add: has_contract_def org1_live_def boot_def unavailable_def)
  have b: "\<not> has_contract boot ''org1.example.com'' \<and> \<not> has_contract boot ''org2.example.com''"
    by (simp add: has_contract_def boot_def)
  show ?thesis
    using C8_health_reports_handles [of org1_live "''2023-11-14T22:13:20.000Z''" "[]" "[]"
        "''org1.example.com''" live1 "''2023-11-14T22:13:20.000Z''"]
      C8_health_reports_handles [of boot "''2023-11-14T22:13:20.000Z''" "[]" "[]" "''x''" live1 "''x''"]
      m h1 h2 b
    by simp
qed

section \<open>Connecting at start-up: all or nothing\<close>

text \<open>The steps of a connection attempt succeed together or not at all.\<close>

lemma try_connect_cases:
  "try_connect env dirname orgName = Inr conn \<longleftrightarrow>
     (\<exists>text ccp ident nw c.
        fs_readFileSync env (ccpPath dirname orgName) = Inr text
      \<and> JSON_parse env text = Inr ccp
      \<and> Wallets_newFileSystemWallet env (walletPath dirname orgName) = None
      \<and> wallet_get env (walletPath dirname orgName) ''admin'' = Inr (Some ident)
      \<and> gateway_connect env (Gateway orgName) ccp (connectionOptions (walletPath dirname orgName)) = None
      \<and> gateway_getNetwork env (Gateway orgName) ''mychannel'' = Inr nw
      \<and> network_getContract env nw ''logcc'' = Inr c
      \<and> conn = \<lparr>gateway = Some (Gateway orgName), contract = Some c\<rparr>)"
  by (auto simp: try_connect_def Let_def CHANNEL_NAME_def CONTRACT_NAME_def
           split: sum.splits option.splits)

lemma initializeFabricForOrg_result:
  "snd (initializeFabricForOrg env dirname st orgName) =
     (case try_connect env dirname orgName of
        Inl e \<Rightarrow> \<lparr>gateway = None, contract = None\<rparr>
      | Inr conn \<Rightarrow> conn)"
  by (simp add: initializeFabricForOrg_def split: sum.splits)

text \<open>A connection attempt writes to the console only.\<close>

lemma initializeFabricForOrg_frame:
  "orgConnections (fst (initializeFabricForOrg env dirname st orgName)) = orgConnections st"
  by (simp add: initializeFabricForOrg_def console_error_def split: sum.splits)

text \<open>After start-up each organization's entry is the outcome of its own attempt.\<close>

lemma initializeFabric_entries:
  "map_of (orgConnections (initializeFabric env dirname st)) ''org1.example.com'' =
     Some (snd (initializeFabricForOrg env dirname st ''org1.example.com''))
   \<and> map_of (orgConnections (initializeFabric env dirname st)) ''org2.example.com'' =
     Some (snd (initializeFabricForOrg env dirname st ''org2.example.com''))"
proof -
  obtain st1 conn1 where r1: "initializeFabricForOrg env dirname st ORG1_NAME = (st1, conn1)"
    by (cases "initializeFabricForOrg env dirname st ORG1_NAME")
  obtain st2 conn2 where r2:
    "initializeFabricForOrg env dirname (set_connection ORG1_NAME conn1 st1) ORG2_NAME = (st2, conn2)"
    by (cases "initializeFabricForOrg env dirname (set_connection ORG1_NAME conn1 st1) ORG2_NAME")
  have o2: "orgConnections st2 = AList.update ORG1_NAME conn1 (orgConnections st1)"
    using initializeFabricForOrg_frame[of env dirname "set_connection ORG1_NAME conn1 st1" ORG2_NAME] r2
    by (simp add: set_connection_def)
  have c1: "conn1 = snd (initializeFabricForOrg env dirname st ''org1.example.com'')"
    using r1 by (simp add: ORG1_NAME_def)
  have c2: "conn2 = snd (initializeFabricForOrg env dirname st ''org2.example.com'')"
  proof -
    have "conn2 = snd (initializeFabricForOrg env dirname (set_connection ORG1_NAME conn1 st1) ORG2_NAME)"
      by (simp add: r2)
    then show ?thesis
      by (simp add: initializeFabricForOrg_result ORG2_NAME_def)
  qed
  have "orgConnections (initializeFabric env dirname st) =
          AList.update ORG2_NAME conn2 (AList.update ORG1_NAME conn1 (orgConnections st1))"
    by (simp add: initializeFabric_def r1 r2 Let_def) (simp add: set_connection_def o2)
  then show ?thesis
    by (simp add: update_conv' c1 c2 ORG1_NAME_def ORG2_NAME_def)
qed

text \<open>
  Claim C6. The entry a connection attempt yields for an organization has gateway and
  contract both \<^verbatim>\<open>null\<close>, unless every step succeeded: the connection profile was
  read and parsed, the wallet opened, the admin identity found, the gateway connected, the
  channel and the contract resolved. When every step succeeds the entry holds the gateway
  and the contract, both non-null. Start-up stores for each of the two organizations the
  outcome of its own attempt, so a failure of one does not keep the other from being
  attempted.
\<close>

theorem C6_connection_all_or_nothing:
  "(snd (initializeFabricForOrg env dirname st orgName) = \<lparr>gateway = None, contract = None\<rparr>
    \<or> (\<exists>text ccp ident nw c.
          fs_readFileSync env (ccpPath dirname orgName) = Inr text
        \<and> JSON_parse env text = Inr ccp
        \<and> Wallets_newFileSystemWallet env (walletPath dirname orgName) = None
        \<and> wallet_get env (walletPath dirname orgName) ''admin'' = Inr (Some ident)
        \<and> gateway_connect env (Gateway orgName) ccp (connectionOptions (walletPath dirname orgName)) = None
        \<and> gateway_getNetwork env (Gateway orgName) ''mychannel'' = Inr nw
        \<and> network_getContract env nw ''logcc'' = Inr c
        \<and> snd (initializeFabricForOrg env dirname st orgName) =
            \<lparr>gateway = Some (Gateway orgName), contract = Some c\<rparr>))
   \<and> (\<forall>text ccp ident nw c.
          fs_readFileSync env (ccpPath dirname orgName) = Inr text
        \<and> JSON_parse env text = Inr ccp
        \<and> Wallets_newFileSystemWallet env (walletPath dirname orgName) = None
        \<and> wallet_get env (walletPath dirname orgName) ''admin'' = Inr (Some ident)
        \<and> gateway_connect env (Gateway orgName) ccp (connectionOptions (walletPath dirname orgName)) = None
        \<and> gateway_getNetwork env (Gateway orgName) ''mychannel'' = Inr nw
        \<and> network_getContract env nw ''logcc'' = Inr c
        \<longrightarrow> snd (initializeFabricForOrg env dirname st orgName) =
            \<lparr>gateway = Some (Gateway orgName), contract = Some c\<rparr>)
   \<and> map_of (orgConnections (initializeFabric env dirname st)) ''org1.example.com'' =
       Some (snd (initializeFabricForOrg env dirname st ''org1.example.com''))
   \<and> map_of (orgConnections (initializeFabric env dirname st)) ''org2.example.com'' =
       Some (snd (initializeFabricForOrg env dirname st ''org2.example.com''))"
proof (intro conjI)
  show "snd (initializeFabricForOrg env dirname st orgName) = \<lparr>gateway = None, contract = None\<rparr>
    \<or> (\<exists>text ccp ident nw c.
          fs_readFileSync env (ccpPath dirname orgName) = Inr text
        \<and> JSON_parse env text = Inr ccp
        \<and> Wallets_newFileSystemWallet env (walletPath dirname orgName) = None
        \<and> wallet_get env (walletPath dirname orgName) ''admin'' = Inr (Some ident)
        \<and> gateway_connect env (Gateway orgName) ccp (connectionOptions (walletPath dirname orgName)) = None
        \<and> gateway_getNetwork env (Gateway orgName) ''mychannel'' = Inr nw
        \<and> network_getContract env nw ''logcc'' = Inr c
        \<and> snd (initializeFabricForOrg env dirname st orgName) =
            \<lparr>gateway = Some (Gateway orgName), contract = Some c\<rparr>)"
  proof (cases "try_connect env dirname orgName")
    case (Inl e)
    then show ?thesis by (simp add: initializeFabricForOrg_result)
  next
    case (Inr conn)
    then show ?thesis
      using try_connect_cases[of env dirname orgName conn]
      by (simp add: initializeFabricForOrg_result)
  qed
next
  show "\<forall>text ccp ident nw c.
          fs_readFileSync env (ccpPath dirname orgName) = Inr text
        \<and> JSON_parse env text = Inr ccp
        \<and> Wallets_newFileSystemWallet env (walletPath dirname orgName) = None
        \<and> wallet_get env (walletPath dirname orgName) ''admin'' = Inr (Some ident)
        \<and> gateway_connect env (Gateway orgName) ccp (connectionOptions (walletPath dirname orgName)) = None
        \<and> gateway_getNetwork env (Gateway orgName) ''mychannel'' = Inr nw
        \<and> network_getContract env nw ''logcc'' = Inr c
        \<longrightarrow> snd (initializeFabricForOrg env dirname st orgName) =
            \<lparr>gateway = Some (Gateway orgName), contract = Some c\<rparr>"
    by (simp add: initializeFabricForOrg_result try_connect_def Let_def
          CHANNEL_NAME_def CONTRACT_NAME_def)
qed (simp_all add: initializeFabric_entries)

text \<open>C6 at a start-up in which the first organization has no connection profile and the second connects.\<close>

theorem C6_witness:
  "map_of (orgConnections (initializeFabric only_org2 [''srv''] boot)) ''org1.example.com'' =
     Some \<lparr>gateway = None, contract = None\<rparr>
   \<and> map_of (orgConnections (initializeFabric only_org2 [''srv''] boot)) ''org2.example.com'' =
     Some \<lparr>gateway = Some (Gateway ''org2.example.com''),
           contract = Some (Contract (Network (Gateway ''org2.example.com'') ''mychannel'') ''logcc'')\<rparr>"
proof -
  have f: "fs_readFileSync only_org2 (ccpPath [''srv''] ''org1.example.com'') = Inl (JsError ''ENOENT'')"
    by (simp add: only_org2_def offline_def ccpPath_def)
  have u: "snd (initializeFabricForOrg only_org2 [''srv''] boot ''org1.example.com'') =
             \<lparr>gateway = None, contract = None\<rparr>"
    using C6_connection_all_or_nothing [of only_org2 "[''srv'']" boot "''org1.example.com''"] f
    by auto
  have l: "snd (initializeFabricForOrg only_org2 [''srv''] boot ''org2.example.com'') =
             \<lparr>gateway = Some (Gateway ''org2.example.com''),
              contract = Some (Contract (Network (Gateway ''org2.example.com'') ''mychannel'') ''logcc'')\<rparr>"
    using C6_connection_all_or_nothing [of only_org2 "[''srv'']" boot "''org2.example.com''"]
    by (simp add: only_org2_def offline_def)
  show ?thesis
    using C6_connection_all_or_nothing [of only_org2 "[''srv'']" boot] u l by simp
qed

section \<open>Shutdown\<close>

text \<open>Disconnecting an organization: nothing to do without a gateway, one call with one.\<close>

lemma disconnect_org_none:
  "Option.bind (map_of (orgConnections st) orgName) gateway = None \<Longrightarrow>
     disconnect_org env st orgName = (st, None)"
  by (cases "map_of (orgConnections st) orgName") (simp_all add: disconnect_org_def)

lemma disconnect_org_some:
  "Option.bind (map_of (orgConnections st) orgName) gateway = Some g \<Longrightarrow>
     disconnect_org env st orgName =
       (st\<lparr>ledger_calls := ledger_calls st @ [Disconnect g]\<rparr>, gateway_disconnect env g)"
  by (cases "map_of (orgConnections st) orgName") (simp_all add: disconnect_org_def)

text \<open>
  Claim C4 says that on the interrupt signal each live organization is disconnected
  whether or not another disconnect failed, that a failure is logged, and that the process
  exits with status 0 whatever the teardown did. The handler has no \<^verbatim>\<open>try\<close>: with
  both organizations connected and the first disconnect throwing, the second organization
  is never disconnected, nothing but the opening line is on the console, and
  \<^verbatim>\<open>process.exit(0)\<close> is not reached.
\<close>

theorem C4_failed_disconnect_stops_shutdown:
  "snd (sigint stuck1 both_live) = UnhandledRejection (JsError ''disconnect failed'')
   \<and> ledger_calls (fst (sigint stuck1 both_live)) = [Disconnect (Gateway ''org1.example.com'')]
   \<and> console (fst (sigint stuck1 both_live)) = [ConsoleLog ''Shutting down server...'']"
  by (simp add: sigint_def disconnect_org_def both_live_def boot_def live1_def live2_def
        stuck1_def offline_def console_log_def ORG1_NAME_def ORG2_NAME_def)

text \<open>
  Claim C4, amended. On the interrupt signal the handler logs one line and disconnects the
  gateway of the first organization, if its entry holds one, then that of the second. If
  no disconnect throws, exactly those disconnects were made, in that order, and the
  process exits with status 0. A disconnect that throws is neither caught nor logged: the
  handler ends there with an unhandled rejection, having made the disconnects up to and
  including the one that threw and no other, with only the opening line on the console and
  the rest of the state as it was; \<^verbatim>\<open>process.exit(0)\<close> is not reached. This holds
  whether it is the first or the second organization's disconnect that throws.
\<close>

theorem C4_shutdown_without_failure:
  "((\<forall>g. Option.bind (map_of (orgConnections st) ''org1.example.com'') gateway = Some g
          \<or> Option.bind (map_of (orgConnections st) ''org2.example.com'') gateway = Some g
          \<longrightarrow> gateway_disconnect env g = None)
     \<longrightarrow> sigint env st =
          (st\<lparr>ledger_calls :=
                 ledger_calls st
                 @ (case Option.bind (map_of (orgConnections st) ''org1.example.com'') gateway of
                      None \<Rightarrow> [] | Some g \<Rightarrow> [Disconnect g])
                 @ (case Option.bind (map_of (orgConnections st) ''org2.example.com'') gateway of
                      None \<Rightarrow> [] | Some g \<Rightarrow> [Disconnect g]),
               console := console st @ [ConsoleLog ''Shutting down server...'']\<rparr>,
           Exited 0))
   \<and> (\<forall>g e. Option.bind (map_of (orgConnections st) ''org1.example.com'') gateway = Some g
            \<and> gateway_disconnect env g = Some e
       \<longrightarrow> sigint env st =
            (st\<lparr>ledger_calls := ledger_calls st @ [Disconnect g],
                 console := console st @ [ConsoleLog ''Shutting down server...'']\<rparr>,
             UnhandledRejection e))
   \<and> (\<forall>g e. (case Option.bind (map_of (orgConnections st) ''org1.example.com'') gateway of
                None \<Rightarrow> True | Some g1 \<Rightarrow> gateway_disconnect env g1 = None)
            \<and> Option.bind (map_of (orgConnections st) ''org2.example.com'') gateway = Some g
            \<and> gateway_disconnect env g = Some e
       \<longrightarrow> sigint env st =
            (st\<lparr>ledger_calls :=
                   ledger_calls st
                   @ (case Option.bind (map_of (orgConnections st) ''org1.example.com'') gateway of
                        None \<Rightarrow> [] | Some g1 \<Rightarrow> [Disconnect g1])
                   @ [Disconnect g],
                 console := console st @ [ConsoleLog ''Shutting down server...'']\<rparr>,
             UnhandledRejection e))"
proof (intro conjI impI allI)
  assume ok: "\<forall>g. Option.bind (map_of (orgConnections st) ''org1.example.com'') gateway = Some g
          \<or> Option.bind (map_of (orgConnections st) ''org2.example.com'') gateway = Some g
          \<longrightarrow> gateway_disconnect env g = None"
  show "sigint env st =
          (st\<lparr>ledger_calls :=
                 ledger_calls st
                 @ (case Option.bind (map_of (orgConnections st) ''org1.example.com'') gateway of
                      None \<Rightarrow> [] | Some g \<Rightarrow> [Disconnect g])
                 @ (case Option.bind (map_of (orgConnections st) ''org2.example.com'') gateway of
                      None \<Rightarrow> [] | Some g \<Rightarrow> [Disconnect g]),
               console := console st @ [ConsoleLog ''Shutting down server...'']\<rparr>,
           Exited 0)"
    using ok
    by (cases "Option.bind (map_of (orgConnections st) ''org1.example.com'') gateway";
        cases "Option.bind (map_of (orgConnections st) ''org2.example.com'') gateway")
       (simp_all add: sigint_def disconnect_org_none disconnect_org_some
          ORG1_NAME_def ORG2_NAME_def Let_def console_log_def)
next
  fix g e
  assume f: "Option.bind (map_of (orgConnections st) ''org1.example.com'') gateway = Some g
            \<and> gateway_disconnect env g = Some e"
  then have d: "disconnect_org env (console_log ''Shutting down server...'' st) ''org1.example.com'' =
      ((console_log ''Shutting down server...'' st)\<lparr>ledger_calls := ledger_calls st @ [Disconnect g]\<rparr>, Some e)"
    by (simp add: disconnect_org_some)
  show "sigint env st =
            (st\<lparr>ledger_calls := ledger_calls st @ [Disconnect g],
                 console := console st @ [ConsoleLog ''Shutting down server...'']\<rparr>,
             UnhandledRejection e)"
    by (simp add: sigint_def d ORG1_NAME_def Let_def) (simp add: console_log_def)
next
  fix g e
  assume f: "(case Option.bind (map_of (orgConnections st) ''org1.example.com'') gateway of
                None \<Rightarrow> True | Some g1 \<Rightarrow> gateway_disconnect env g1 = None)
            \<and> Option.bind (map_of (orgConnections st) ''org2.example.com'') gateway = Some g
            \<and> gateway_disconnect env g = Some e"
  then show "sigint env st =
            (st\<lparr>ledger_calls :=
                   ledger_calls st
                   @ (case Option.bind (map_of (orgConnections st) ''org1.example.com'') gateway of
                        None \<Rightarrow> [] | Some g1 \<Rightarrow> [Disconnect g1])
                   @ [Disconnect g],
                 console := console st @ [ConsoleLog ''Shutting down server...'']\<rparr>,
             UnhandledRejection e)"
    by (cases "Option.bind (map_of (orgConnections st) ''org1.example.com'') gateway")
       (simp_all add: sigint_def disconnect_org_none disconnect_org_some
          ORG1_NAME_def ORG2_NAME_def Let_def console_log_def)
qed

text \<open>
  C4 at a clean shutdown with both organizations connected, at one whose first disconnect
  throws, and at one whose second disconnect throws.
\<close>

theorem C4_witness:
  "snd (sigint offline both_live) = Exited 0
   \<and> ledger_calls (fst (sigint offline both_live)) =
       [Disconnect (Gateway ''org1.example.com''), Disconnect (Gateway ''org2.example.com'')]
   \<and> snd (sigint stuck1 org1_live) = UnhandledRejection (JsError ''disconnect failed'')
   \<and> snd (sigint stuck2 both_live) = UnhandledRejection (JsError ''disconnect failed'')
   \<and> ledger_calls (fst (sigint stuck2 both_live)) =
       [Disconnect (Gateway ''org1.example.com''), Disconnect (Gateway ''org2.example.com'')]
   \<and> console (fst (sigint stuck2 both_live)) = [ConsoleLog ''Shutting down server...'']"
proof -
  have g1: "Option.bind (map_of (orgConnections both_live) ''org1.example.com'') gateway = Some (Gateway ''org1.example.com'')"
    by (simp add: both_live_def boot_def live1_def)
  have g2: "Option.bind (map_of (orgConnections both_live) ''org2.example.com'') gateway = Some (Gateway ''org2.example.com'')"
    by (simp add: both_live_def boot_def live2_def)
  have d: "\<forall>g. gateway_disconnect offline g = None"
    by (simp add: offline_def)
  have l: "ledger_calls both_live = [] \<and> console both_live = []"
    by (simp add: both_live_def boot_def)
  have h1: "Option.bind (map_of (orgConnections org1_live) ''org1.example.com'') gateway = Some (Gateway ''org1.example.com'')"
    by (simp add: org1_live_def boot_def live1_def)
  have s1: "gateway_disconnect stuck1 (Gateway ''org1.example.com'') = Some (JsError ''disconnect failed'')"
    by (simp add: stuck1_def offline_def)
  have s2: "gateway_disconnect stuck2 (Gateway ''org1.example.com'') = None
          \<and> gateway_disconnect stuck2 (Gateway ''org2.example.com'') = Some (JsError ''disconnect failed'')"
    by (simp add: stuck2_def offline_def)
  show ?thesis
    using C4_shutdown_without_failure [of both_live offline] g1 g2 d l
      C4_shutdown_without_failure [of org1_live stuck1] h1 s1
      C4_shutdown_without_failure [of both_live stuck2] s2
    by simp
qed

section \<open>Provisioning the wallets\<close>

lemma say_wallet_dir [simp]:
  "wallet_dir (say m st) = wallet_dir st"
  "wallet_dir (say_error m st) = wallet_dir st"
  by (simp_all add: say_def say_error_def)

text \<open>When the certificate or the first listed key cannot be read, the wallet directory is not touched.\<close>

lemma createWallet_failed:
  assumes "isl (fs_readFileSync env (certPath dirname orgName))
         \<or> (case fs_readdirSync env (keyPath dirname orgName) of
               Inl e \<Rightarrow> True
             | Inr [] \<Rightarrow> True
             | Inr (keyFile # others) \<Rightarrow> isl (fs_readFileSync env (keyPath dirname orgName @ [keyFile])))"
  shows "wallet_dir (createWallet env dirname st orgName) = wallet_dir st"
  using assms
  by (auto simp: createWallet_def try_createWallet_def isl_def split: sum.splits list.splits)

text \<open>When every step succeeds, the admin identity is in the organization's wallet and no other wallet changed.\<close>

lemma createWallet_provisioned:
  assumes "fs_readFileSync env (certPath dirname orgName) = Inr cert"
    and "fs_readdirSync env (keyPath dirname orgName) = Inr (keyFile # others)"
    and "fs_readFileSync env (keyPath dirname orgName @ [keyFile]) = Inr key"
    and "Wallets_newFileSystemWallet env (walletPath dirname orgName) = None"
    and "wallet_put env (walletPath dirname orgName) ''admin''
           \<lparr>certificate = cert, privateKey = key,
            mspId = (if orgName = ''org1.example.com'' then ''Org1MSP'' else ''Org2MSP''),
            type = ''X.509''\<rparr> = None"
  shows "stored_identity (createWallet env dirname st orgName) (walletPath dirname orgName) ''admin'' =
           Some \<lparr>certificate = cert, privateKey = key,
                 mspId = (if orgName = ''org1.example.com'' then ''Org1MSP'' else ''Org2MSP''),
                 type = ''X.509''\<rparr>"
    and "p \<noteq> walletPath dirname orgName \<Longrightarrow>
           stored_identity (createWallet env dirname st orgName) p label = stored_identity st p label"
  using assms
  by (simp_all add: createWallet_def try_createWallet_def stored_identity_def open_wallet_def
        put_identity_def Let_def split: option.splits)

lemma walletPath_inj: "walletPath dirname a = walletPath dirname b \<longleftrightarrow> a = b"
  by (simp add: walletPath_def)

lemma stored_identity_failed:
  assumes "wallet_dir st' = wallet_dir st"
  shows "stored_identity st' p label = stored_identity st p label"
  using assms by (simp add: stored_identity_def)

text \<open>Provisioning an organization changes no wallet but its own, whatever its outcome.\<close>

lemma stored_identity_say [simp]:
  "stored_identity (say m st) p label = stored_identity st p label"
  "stored_identity (say_error m st) p label = stored_identity st p label"
  by (simp_all add: stored_identity_def)

lemma stored_identity_open_wallet:
  "p \<noteq> q \<Longrightarrow> stored_identity (open_wallet q st) p label = stored_identity st p label"
  by (cases "wallet_dir st") (simp_all add: stored_identity_def open_wallet_def Let_def)

lemma stored_identity_put_identity:
  "p \<noteq> q \<Longrightarrow> stored_identity (put_identity q l ident st) p label = stored_identity st p label"
  by (cases "wallet_dir st") (simp_all add: stored_identity_def put_identity_def Let_def)

lemma try_createWallet_other_wallets:
  assumes "p \<noteq> walletPath dirname orgName"
  shows "stored_identity (fst (try_createWallet env dirname st orgName)) p label = stored_identity st p label"
proof -
  have opened: "stored_identity (open_wallet (walletPath dirname orgName) s) p label = stored_identity s p label" for s
    using assms by (rule stored_identity_open_wallet)
  have put: "stored_identity (put_identity (walletPath dirname orgName) l ident s) p label =
      stored_identity s p label" for l ident s
    using assms by (rule stored_identity_put_identity)
  show ?thesis
    by (simp add: try_createWallet_def Let_def opened put
          split: sum.split list.split option.split split del: if_split)
qed

lemma createWallet_other_wallets:
  assumes "p \<noteq> walletPath dirname orgName"
  shows "stored_identity (createWallet env dirname st orgName) p label = stored_identity st p label"
proof -
  let ?s = "say (''Creating wallet for '' @ orgName @ ''...'') st"
  obtain st1 r where t: "try_createWallet env dirname ?s orgName = (st1, r)"
    by (cases "try_createWallet env dirname ?s orgName")
  have "stored_identity (fst (try_createWallet env dirname ?s orgName)) p label = stored_identity ?s p label"
    using assms by (rule try_createWallet_other_wallets)
  then have "stored_identity st1 p label = stored_identity st p label"
    by (simp only: t fst_conv stored_identity_say)
  then show ?thesis
    unfolding createWallet_def t by (cases r) simp_all
qed

text \<open>A failed provisioning prints its two lines and changes nothing else.\<close>

lemma createWallet_failed_state:
  assumes "isl (fs_readFileSync env (certPath dirname orgName))
         \<or> (case fs_readdirSync env (keyPath dirname orgName) of
               Inl e \<Rightarrow> True
             | Inr [] \<Rightarrow> True
             | Inr (keyFile # others) \<Rightarrow> isl (fs_readFileSync env (keyPath dirname orgName @ [keyFile])))"
  shows "createWallet env dirname st orgName =
           st\<lparr>printed := printed st @
                  [ConsoleLog (''Creating wallet for '' @ orgName @ ''...''),
                   ConsoleError (''Error creating wallet for '' @ orgName @ '':'')]\<rparr>"
  using assms
  by (auto simp: createWallet_def try_createWallet_def isl_def say_def say_error_def
           split: sum.splits list.splits)

text \<open>When the old wallets are out of the way, the run provisions the first organization, then the second.\<close>

lemma main_runs_both:
  assumes "wallet_dir st = None \<or> fs_rmSync env (dirname @ [''wallet'']) = None"
  obtains st1 where "wallet_dir st1 = None"
    and "main env dirname st =
           (createWallet env dirname (createWallet env dirname st1 ''org1.example.com'') ''org2.example.com'',
            None)"
proof (cases "wallet_dir st")
  case None
  then have "main env dirname st =
           (createWallet env dirname (createWallet env dirname st ''org1.example.com'') ''org2.example.com'',
            None)"
    by (simp add: main_def)
  with None show ?thesis
    by (rule that)
next
  case (Some d)
  then have removed: "fs_rmSync env (dirname @ [''wallet'']) = None"
    using assms by simp
  have "wallet_dir ((say ''Removing old wallets...'' st)\<lparr>wallet_dir := None\<rparr>) = None"
    by simp
  moreover have "main env dirname st =
           (createWallet env dirname
              (createWallet env dirname ((say ''Removing old wallets...'' st)\<lparr>wallet_dir := None\<rparr>)
                 ''org1.example.com'')
              ''org2.example.com'',
            None)"
    using Some removed by (simp add: main_def)
  ultimately show ?thesis
    by (rule that)
qed

text \<open>
  Claim C7 says that provisioning an organization fails when more than one key file is
  found in its keystore. \<^verbatim>\<open>createWallet\<close> takes the first name
  \<^verbatim>\<open>readdirSync\<close> lists and does not count them: with two key files listed, the
  identity is written, with the first file's key.
\<close>

theorem C7_second_key_file_ignored:
  "stored_identity (createWallet two_keys [''srv''] fresh ''org1.example.com'')
      (walletPath [''srv''] ''org1.example.com'') ''admin'' =
     Some \<lparr>certificate = ''CERT1'', privateKey = ''KEY-A'', mspId = ''Org1MSP'', type = ''X.509''\<rparr>
   \<and> fs_readdirSync two_keys (keyPath [''srv''] ''org1.example.com'') = Inr [''a_sk'', ''b_sk'']"
proof -
  have "stored_identity (createWallet two_keys [''srv''] fresh ''org1.example.com'')
      (walletPath [''srv''] ''org1.example.com'') ''admin'' =
     Some \<lparr>certificate = ''CERT1'', privateKey = ''KEY-A'',
           mspId = (if ''org1.example.com'' = ''org1.example.com'' then ''Org1MSP'' else ''Org2MSP''),
           type = ''X.509''\<rparr>"
    by (rule createWallet_provisioned(1)[where keyFile = "''a_sk''" and others = "[''b_sk'']"])
       (simp_all add: two_keys_def offline_def certPath_def keyPath_def mspPath_def)
  then show ?thesis
    by (simp add: two_keys_def)
qed

text \<open>
  Claim C7, amended. For every organization: if its certificate cannot be read, or its
  keystore cannot be listed or is empty, or the first key file listed cannot be read, then
  \<^verbatim>\<open>createWallet\<close> for it prints that it starts and that it failed, and changes
  nothing else: no identity is written. That failure does not abort the run. When the old
  wallets were removed (or there were none), \<^verbatim>\<open>main\<close> completes whatever each
  provisioning did; an organization that failed has no identity in its wallet afterwards;
  when both failed there is no wallet directory; and an organization whose material and
  wallet are in order has its admin identity in its wallet afterwards, whatever happened
  to the other one. More than one key file is not a failure: the first one listed is used.
\<close>

theorem C7_failed_provisioning_writes_nothing:
  "((isl (fs_readFileSync env (certPath dirname orgName))
      \<or> (case fs_readdirSync env (keyPath dirname orgName) of
            Inl e \<Rightarrow> True
          | Inr [] \<Rightarrow> True
          | Inr (k # ks) \<Rightarrow> isl (fs_readFileSync env (keyPath dirname orgName @ [k]))))
     \<longrightarrow> createWallet env dirname st' orgName =
           st'\<lparr>printed := printed st' @
                   [ConsoleLog (''Creating wallet for '' @ orgName @ ''...''),
                    ConsoleError (''Error creating wallet for '' @ orgName @ '':'')]\<rparr>)
   \<and> ((wallet_dir st = None \<or> fs_rmSync env (dirname @ [''wallet'']) = None) \<longrightarrow>
        snd (main env dirname st) = None
      \<and> ((orgName = ''org1.example.com'' \<or> orgName = ''org2.example.com'')
          \<and> (isl (fs_readFileSync env (certPath dirname orgName))
              \<or> (case fs_readdirSync env (keyPath dirname orgName) of
                    Inl e \<Rightarrow> True
                  | Inr [] \<Rightarrow> True
                  | Inr (k # ks) \<Rightarrow> isl (fs_readFileSync env (keyPath dirname orgName @ [k]))))
          \<longrightarrow> (\<forall>label. stored_identity (fst (main env dirname st))
                          (walletPath dirname orgName) label = None))
      \<and> ((isl (fs_readFileSync env (certPath dirname ''org1.example.com''))
              \<or> (case fs_readdirSync env (keyPath dirname ''org1.example.com'') of
                    Inl e \<Rightarrow> True
                  | Inr [] \<Rightarrow> True
                  | Inr (k # ks) \<Rightarrow>
                      isl (fs_readFileSync env (keyPath dirname ''org1.example.com'' @ [k]))))
          \<and> (isl (fs_readFileSync env (certPath dirname ''org2.example.com''))
              \<or> (case fs_readdirSync env (keyPath dirname ''org2.example.com'') of
                    Inl e \<Rightarrow> True
                  | Inr [] \<Rightarrow> True
                  | Inr (k # ks) \<Rightarrow>
                      isl (fs_readFileSync env (keyPath dirname ''org2.example.com'' @ [k]))))
          \<longrightarrow> wallet_dir (fst (main env dirname st)) = None)
      \<and> ((good = ''org1.example.com'' \<or> good = ''org2.example.com'')
          \<and> fs_readFileSync env (certPath dirname good) = Inr cert
          \<and> fs_readdirSync env (keyPath dirname good) = Inr (keyFile # others)
          \<and> fs_readFileSync env (keyPath dirname good @ [keyFile]) = Inr key
          \<and> Wallets_newFileSystemWallet env (walletPath dirname good) = None
          \<and> wallet_put env (walletPath dirname good) ''admin''
                \<lparr>certificate = cert, privateKey = key,
                 mspId = (if good = ''org1.example.com'' then ''Org1MSP'' else ''Org2MSP''),
                 type = ''X.509''\<rparr> = None
          \<longrightarrow> stored_identity (fst (main env dirname st)) (walletPath dirname good) ''admin'' =
                Some \<lparr>certificate = cert, privateKey = key,
                      mspId = (if good = ''org1.example.com'' then ''Org1MSP'' else ''Org2MSP''),
                      type = ''X.509''\<rparr>))"
proof (intro conjI impI)
  assume "isl (fs_readFileSync env (certPath dirname orgName))
      \<or> (case fs_readdirSync env (keyPath dirname orgName) of
            Inl e \<Rightarrow> True
          | Inr [] \<Rightarrow> True
          | Inr (k # ks) \<Rightarrow> isl (fs_readFileSync env (keyPath dirname orgName @ [k])))"
  then show "createWallet env dirname st' orgName =
           st'\<lparr>printed := printed st' @
                   [ConsoleLog (''Creating wallet for '' @ orgName @ ''...''),
                    ConsoleError (''Error creating wallet for '' @ orgName @ '':'')]\<rparr>"
    by (rule createWallet_failed_state)
next
  assume reset: "wallet_dir st = None \<or> fs_rmSync env (dirname @ [''wallet'']) = None"
  then obtain st1 where empty: "wallet_dir st1 = None"
    and m: "main env dirname st =
           (createWallet env dirname (createWallet env dirname st1 ''org1.example.com'') ''org2.example.com'',
            None)"
    by (rule main_runs_both)
  have final: "fst (main env dirname st) =
      createWallet env dirname (createWallet env dirname st1 ''org1.example.com'') ''org2.example.com''"
    by (simp only: m fst_conv)
  have none1: "stored_identity st1 p l = None" for p l
    by (simp add: stored_identity_def empty)
  have differ: "walletPath dirname ''org1.example.com'' \<noteq> walletPath dirname ''org2.example.com''"
    by (simp add: walletPath_inj)
  show "snd (main env dirname st) = None"
    by (simp only: m snd_conv)
  {
    assume bad: "(orgName = ''org1.example.com'' \<or> orgName = ''org2.example.com'')
          \<and> (isl (fs_readFileSync env (certPath dirname orgName))
              \<or> (case fs_readdirSync env (keyPath dirname orgName) of
                    Inl e \<Rightarrow> True
                  | Inr [] \<Rightarrow> True
                  | Inr (k # ks) \<Rightarrow> isl (fs_readFileSync env (keyPath dirname orgName @ [k]))))"
    then have intact: "wallet_dir (createWallet env dirname s orgName) = wallet_dir s" for s
      by (intro createWallet_failed) simp
    have untouched: "stored_identity (createWallet env dirname s orgName) p l = stored_identity s p l" for s p l
      by (rule stored_identity_failed) (rule intact)
    from bad have "orgName = ''org1.example.com'' \<or> orgName = ''org2.example.com''"
      by simp
    then show "\<forall>label. stored_identity (fst (main env dirname st))
                          (walletPath dirname orgName) label = None"
    proof
      assume o: "orgName = ''org1.example.com''"
      have "stored_identity (fst (main env dirname st)) (walletPath dirname ''org1.example.com'') l =
              stored_identity (createWallet env dirname st1 ''org1.example.com'')
                (walletPath dirname ''org1.example.com'') l" for l
        unfolding final using differ by (rule createWallet_other_wallets)
      then show ?thesis
        using untouched[of st1] none1 by (simp add: o)
    next
      assume o: "orgName = ''org2.example.com''"
      show ?thesis
        unfolding final o
        using untouched[of "createWallet env dirname st1 ''org1.example.com''"]
          createWallet_other_wallets[OF differ[symmetric], of env st1] none1
        by (simp add: o)
    qed
  }
  {
    assume both: "(isl (fs_readFileSync env (certPath dirname ''org1.example.com''))
              \<or> (case fs_readdirSync env (keyPath dirname ''org1.example.com'') of
                    Inl e \<Rightarrow> True
                  | Inr [] \<Rightarrow> True
                  | Inr (k # ks) \<Rightarrow>
                      isl (fs_readFileSync env (keyPath dirname ''org1.example.com'' @ [k]))))
          \<and> (isl (fs_readFileSync env (certPath dirname ''org2.example.com''))
              \<or> (case fs_readdirSync env (keyPath dirname ''org2.example.com'') of
                    Inl e \<Rightarrow> True
                  | Inr [] \<Rightarrow> True
                  | Inr (k # ks) \<Rightarrow>
                      isl (fs_readFileSync env (keyPath dirname ''org2.example.com'' @ [k]))))"
    have i1: "wallet_dir (createWallet env dirname s ''org1.example.com'') = wallet_dir s" for s
      using both by (intro createWallet_failed) simp
    have i2: "wallet_dir (createWallet env dirname s ''org2.example.com'') = wallet_dir s" for s
      using both by (intro createWallet_failed) simp
    show "wallet_dir (fst (main env dirname st)) = None"
      by (simp only: final i1 i2 empty)
  }
  {
    assume ok: "(good = ''org1.example.com'' \<or> good = ''org2.example.com'')
          \<and> fs_readFileSync env (certPath dirname good) = Inr cert
          \<and> fs_readdirSync env (keyPath dirname good) = Inr (keyFile # others)
          \<and> fs_readFileSync env (keyPath dirname good @ [keyFile]) = Inr key
          \<and> Wallets_newFileSystemWallet env (walletPath dirname good) = None
          \<and> wallet_put env (walletPath dirname good) ''admin''
                \<lparr>certificate = cert, privateKey = key,
                 mspId = (if good = ''org1.example.com'' then ''Org1MSP'' else ''Org2MSP''),
                 type = ''X.509''\<rparr> = None"
    then have c: "fs_readFileSync env (certPath dirname good) = Inr cert"
      and ks: "fs_readdirSync env (keyPath dirname good) = Inr (keyFile # others)"
      and k: "fs_readFileSync env (keyPath dirname good @ [keyFile]) = Inr key"
      and w: "Wallets_newFileSystemWallet env (walletPath dirname good) = None"
      and p: "wallet_put env (walletPath dirname good) ''admin''
                \<lparr>certificate = cert, privateKey = key,
                 mspId = (if good = ''org1.example.com'' then ''Org1MSP'' else ''Org2MSP''),
                 type = ''X.509''\<rparr> = None"
      by simp_all
    have written: "stored_identity (createWallet env dirname s good) (walletPath dirname good) ''admin'' =
           Some \<lparr>certificate = cert, privateKey = key,
                 mspId = (if good = ''org1.example.com'' then ''Org1MSP'' else ''Org2MSP''),
                 type = ''X.509''\<rparr>" for s
      using c ks k w p by (rule createWallet_provisioned(1))
    from ok have "good = ''org1.example.com'' \<or> good = ''org2.example.com''"
      by simp
    then show "stored_identity (fst (main env dirname st)) (walletPath dirname good) ''admin'' =
                Some \<lparr>certificate = cert, privateKey = key,
                      mspId = (if good = ''org1.example.com'' then ''Org1MSP'' else ''Org2MSP''),
                      type = ''X.509''\<rparr>"
    proof
      assume g: "good = ''org1.example.com''"
      have "stored_identity (fst (main env dirname st)) (walletPath dirname ''org1.example.com'') ''admin'' =
              stored_identity (createWallet env dirname st1 ''org1.example.com'')
                (walletPath dirname ''org1.example.com'') ''admin''"
        unfolding final using differ by (rule createWallet_other_wallets)
      then show ?thesis
        using written[of st1] by (simp add: g)
    next
      assume g: "good = ''org2.example.com''"
      show ?thesis
        unfolding final
        using written[of "createWallet env dirname st1 ''org1.example.com''"] by (simp add: g)
    qed
  }
qed

text \<open>
  C7 at crypto material in which the first organization has no certificate and the second
  is complete, and at a machine with no crypto material at all.
\<close>

theorem C7_witness:
  "wallet_dir (createWallet org2_material [''srv''] fresh ''org1.example.com'') = None
   \<and> snd (main org2_material [''srv''] fresh) = None
   \<and> stored_identity (fst (main org2_material [''srv''] fresh))
        (walletPath [''srv''] ''org1.example.com'') ''admin'' = None
   \<and> stored_identity (fst (main org2_material [''srv''] fresh))
        (walletPath [''srv''] ''org2.example.com'') ''admin'' =
       Some \<lparr>certificate = ''CERT2'', privateKey = ''KEY2'', mspId = ''Org2MSP'', type = ''X.509''\<rparr>
   \<and> wallet_dir (fst (main offline [''srv''] fresh)) = None"
proof -
  have failed: "isl (fs_readFileSync org2_material (certPath [''srv''] ''org1.example.com''))"
    by (simp add: org2_material_def offline_def certPath_def mspPath_def)
  have cert: "fs_readFileSync org2_material (certPath [''srv''] ''org2.example.com'') = Inr ''CERT2''"
    by (simp add: org2_material_def offline_def)
  have keys: "fs_readdirSync org2_material (keyPath [''srv''] ''org2.example.com'') = Inr [''priv_sk'']"
    by (simp add: org2_material_def offline_def)
  have key: "fs_readFileSync org2_material (keyPath [''srv''] ''org2.example.com'' @ [''priv_sk'']) = Inr ''KEY2''"
    by (simp add: org2_material_def offline_def certPath_def keyPath_def mspPath_def)
  have opened: "Wallets_newFileSystemWallet org2_material (walletPath [''srv''] ''org2.example.com'') = None"
    by (simp add: org2_material_def offline_def)
  have put: "wallet_put org2_material (walletPath [''srv''] ''org2.example.com'') ''admin''
           \<lparr>certificate = ''CERT2'', privateKey = ''KEY2'', mspId = ''Org2MSP'', type = ''X.509''\<rparr> = None"
    by (simp add: org2_material_def offline_def)
  have f: "wallet_dir fresh = None"
    by (simp add: fresh_def)
  have off: "isl (fs_readFileSync offline (certPath [''srv''] ''org1.example.com''))
           \<and> isl (fs_readFileSync offline (certPath [''srv''] ''org2.example.com''))"
    by (simp add: offline_def)
  show ?thesis
    using C7_failed_provisioning_writes_nothing
        [of org2_material "[''srv'']" "''org1.example.com''" fresh fresh
            "''org2.example.com''" "''CERT2''" "''priv_sk''" "[]" "''KEY2''"]
      C7_failed_provisioning_writes_nothing
        [of offline "[''srv'']" "''org1.example.com''" fresh fresh
            "''org2.example.com''" "''CERT2''" "''priv_sk''" "[]" "''KEY2''"]
      failed cert keys key opened put f off
    by simp
qed

end
